theory Spec2Isabelle
  imports Complex_Main "HOL-Library.AList" "HOL-Library.Sublist"
begin

section \<open>JavaScript values\<close>

text \<open>
  Values that the TypeScript source passes around without inspecting them beyond their
  truthiness (tool inputs and outputs, typed \<open>unknown\<close> or \<open>any\<close>) are JSON values.
  \<open>truthy\<close> is JavaScript's ToBoolean on them: \<open>null\<close>, \<open>false\<close>, \<open>0\<close> and the empty
  string are falsy, every array and object is truthy.
\<close>

datatype jsval =
    JNull
  | JBool bool
  | JNum rat
  | JStr string
  | JArr "jsval list"
  | JObj "(string \<times> jsval) list"

fun truthy :: "jsval \<Rightarrow> bool" where
  "truthy JNull = False"
| "truthy (JBool b) = b"
| "truthy (JNum n) = (n \<noteq> 0)"
| "truthy (JStr s) = (s \<noteq> [])"
| "truthy (JArr xs) = True"
| "truthy (JObj kvs) = True"


section \<open>JavaScript strings\<close>

text \<open>
  A JavaScript string is modelled as a \<open>string\<close> whose characters are the code units
  below 256. A property that is absent (\<open>undefined\<close>) is \<open>None\<close>. The operator \<open>||\<close>
  returns its left operand when that is truthy and its right operand otherwise; for a
  string, truthy means non-empty.
\<close>

definition truthy_str :: "string option \<Rightarrow> bool" where
  "truthy_str v = (case v of None \<Rightarrow> False | Some s \<Rightarrow> s \<noteq> [])"

definition or_str :: "string option \<Rightarrow> string option \<Rightarrow> string option" where
  "or_str a b = (if truthy_str a then a else b)"

definition or_default :: "string option \<Rightarrow> string \<Rightarrow> string" where
  "or_default a b = (case a of None \<Rightarrow> b | Some s \<Rightarrow> if s \<noteq> [] then s else b)"

definition truthy_val :: "jsval option \<Rightarrow> bool" where
  "truthy_val v = (case v of None \<Rightarrow> False | Some x \<Rightarrow> truthy x)"

definition or_val :: "jsval option \<Rightarrow> jsval option \<Rightarrow> jsval option" where
  "or_val a b = (if truthy_val a then a else b)"

text \<open>\<open>String.prototype.includes\<close> and \<open>startsWith\<close>.\<close>

fun str_includes :: "string \<Rightarrow> string \<Rightarrow> bool" where
  "str_includes [] needle = (needle = [])"
| "str_includes (c # cs) needle = (prefix needle (c # cs) \<or> str_includes cs needle)"

definition startsWith :: "string \<Rightarrow> string \<Rightarrow> bool" where
  "startsWith text pre = prefix pre text"

text \<open>
  The character classes of the regular expressions: \<open>\s\<close> (white space and line
  terminators; below 256 these are tab, line feed, vertical tab, form feed, carriage
  return, space and the no-break space) and \<open>\d\<close>.
\<close>

definition is_space :: "char \<Rightarrow> bool" where
  "is_space c = (of_char c \<in> {9, 10, 11, 12, 13, 32, 160 :: nat})"

definition is_digit :: "char \<Rightarrow> bool" where
  "is_digit c = (48 \<le> (of_char c :: nat) \<and> (of_char c :: nat) \<le> 57)"

text \<open>\<open>String.prototype.trim\<close> removes white space and line terminators at both ends.\<close>

definition trim :: "string \<Rightarrow> string" where
  "trim s = rev (dropWhile is_space (rev (dropWhile is_space s)))"

text \<open>
  \<open>String.prototype.toLowerCase\<close> on code units below 256: the letters \<open>A\<close> to \<open>Z\<close> and
  the capital letters of Latin-1 (192 to 222, but not the multiplication sign 215) move
  up by 32.
\<close>

definition lower_char :: "char \<Rightarrow> char" where
  "lower_char c =
     (let n = (of_char c :: nat)
      in if (65 \<le> n \<and> n \<le> 90) \<or> (192 \<le> n \<and> n \<le> 222 \<and> n \<noteq> 215)
         then char_of (n + 32) else c)"

definition toLowerCase :: "string \<Rightarrow> string" where
  "toLowerCase s = map lower_char s"


section \<open>The permission handler of a Gemini session (\<open>GeminiPermissionHandler\<close>)\<close>

text \<open>
  \<open>handleToolCall\<close> returns a promise and stores its \<open>resolve\<close>/\<open>reject\<close> closures in
  the \<open>pendingRequests\<close> map. A promise is identified here by a number, allocated from
  \<open>nextPromise\<close>; \<open>settled\<close> records, in order, which promise was settled and how. A
  JavaScript promise settles at most once: calling \<open>resolve\<close> or \<open>reject\<close> on a settled
  promise does nothing, which is what \<open>settle_promise\<close> does.

  \<open>pendingRequests\<close> is a JavaScript \<open>Map\<close>: it iterates in insertion order and \<open>set\<close> on
  a key that is present replaces the value in place, like \<open>AList.update\<close>.
  \<open>agentRequests\<close> is the \<open>requests\<close> object of the session's agent state, which
  \<open>updateAgentState\<close> rewrites; \<open>debugLog\<close> collects the calls of \<open>logger.debug\<close>.
\<close>

datatype decision = approved | denied

record PermissionResult =
  decision :: decision
  reason :: "string option"

datatype settlement = Resolved PermissionResult | Rejected string

record PendingRequest =
  promise :: nat
  toolName :: string
  input :: jsval

record AgentRequest =
  tool :: string
  arguments :: jsval
  createdAt :: nat

record GeminiPermissionHandler =
  pendingRequests :: "(string \<times> PendingRequest) list"
  settled :: "(nat \<times> settlement) list"
  nextPromise :: nat
  agentRequests :: "string \<rightharpoonup> AgentRequest"
  debugLog :: "string list"

definition newPermissionHandler :: GeminiPermissionHandler where
  "newPermissionHandler =
     \<lparr>pendingRequests = [], settled = [], nextPromise = 0,
      agentRequests = Map.empty, debugLog = []\<rparr>"

definition settle_promise :: "nat \<Rightarrow> 'a \<Rightarrow> (nat \<times> 'a) list \<Rightarrow> (nat \<times> 'a) list" where
  "settle_promise p s sofar = (if map_of sofar p = None then sofar @ [(p, s)] else sofar)"

text \<open>
  The \<open>permission\<close> RPC handler registered by \<open>setupRpcHandler\<close>. Its parameters are
  \<open>requestId\<close>, \<open>approved\<close> and \<open>reason\<close>; it answers \<open>{ success: true }\<close> on both
  branches, which is the first component of the result.
\<close>

definition permissionRpc ::
  "string \<Rightarrow> bool \<Rightarrow> string option \<Rightarrow> GeminiPermissionHandler \<Rightarrow> bool \<times> GeminiPermissionHandler" where
  "permissionRpc requestId isApproved why h =
     (case map_of (pendingRequests h) requestId of
        Some pending \<Rightarrow>
          (True, h\<lparr>pendingRequests := AList.delete requestId (pendingRequests h),
                   settled := settle_promise (promise pending)
                     (Resolved \<lparr>decision = (if isApproved then approved else denied),
                                reason = why\<rparr>) (settled h)\<rparr>)
      | None \<Rightarrow>
          (True, h\<lparr>debugLog := debugLog h @
                     [''[Gemini] Permission response for unknown request: '' @ requestId]\<rparr>))"

text \<open>
  \<open>handleToolCall(toolCallId, toolName, input)\<close>; \<open>now\<close> is what \<open>Date.now()\<close> returns.
  The result is the promise handed to the caller and the new state. There is no check
  whether \<open>toolCallId\<close> is already a key: \<open>Map.set\<close> stores the new entry either way.
\<close>

definition handleToolCall ::
  "nat \<Rightarrow> string \<Rightarrow> string \<Rightarrow> jsval \<Rightarrow> GeminiPermissionHandler \<Rightarrow> nat \<times> GeminiPermissionHandler" where
  "handleToolCall now toolCallId name inp h =
     (nextPromise h,
      h\<lparr>pendingRequests :=
          AList.update toolCallId \<lparr>promise = nextPromise h, toolName = name, input = inp\<rparr>
            (pendingRequests h),
        nextPromise := Suc (nextPromise h),
        agentRequests := (agentRequests h)
          (toolCallId \<mapsto> \<lparr>tool = name, arguments = inp, createdAt = now\<rparr>),
        debugLog := debugLog h @
          [''[Gemini] Permission request sent for tool: '' @ name @ '' ('' @ toolCallId @ '')'']\<rparr>)"

text \<open>\<open>reset()\<close> takes no argument: every pending promise is rejected with the same error.\<close>

definition reset :: "GeminiPermissionHandler \<Rightarrow> GeminiPermissionHandler" where
  "reset h =
     h\<lparr>settled := fold (\<lambda>(requestId, pending). settle_promise (promise pending)
                          (Rejected ''Permission handler reset''))
                     (pendingRequests h) (settled h),
       pendingRequests := [],
       debugLog := debugLog h @ [''[Gemini] Permission handler reset'']\<rparr>"

text \<open>
  The states the handler can be in. Every operation below keeps this invariant, and the
  fresh handler satisfies it: the keys of the map are distinct, no two entries hold the
  same promise, a promise held by an entry is allocated and not settled, and no promise
  is settled twice.
\<close>

definition broker_inv :: "GeminiPermissionHandler \<Rightarrow> bool" where
  "broker_inv h \<longleftrightarrow>
     distinct (map fst (pendingRequests h)) \<and>
     distinct (map (promise \<circ> snd) (pendingRequests h)) \<and>
     list_all (\<lambda>(k, pending). promise pending < nextPromise h \<and>
                 map_of (settled h) (promise pending) = None) (pendingRequests h) \<and>
     list_all (\<lambda>(p, s). p < nextPromise h) (settled h) \<and>
     distinct (map fst (settled h))"


section \<open>The permission handler of a Cursor session (\<open>CursorPermissionHandler\<close>)\<close>

text \<open>
  \<open>CursorPermissionHandler\<close> has the same \<open>pendingRequests\<close> map and the same
  \<open>handleToolCall\<close> as the Gemini class; its \<open>permission\<close> RPC handler and its \<open>reset\<close>
  differ. A decision is one of four, the RPC handler reads the identifier from the \<open>id\<close>
  of the response and answers nothing, \<open>reset\<close> rejects with another error, and both
  move the entry of the request in the agent state from \<open>requests\<close> to
  \<open>completedRequests\<close>. The result that the RPC handler passes to \<open>resolve\<close> is an object
  with the \<open>decision\<close> only.
\<close>

datatype cursor_decision =
  CursorApproved | CursorApprovedForSession | CursorDenied | CursorAbort

datatype cursor_settlement = CursorResolved cursor_decision | CursorRejected string

text \<open>
  An entry of \<open>completedRequests\<close> is the request, \<open>{ ...request, completedAt, status }\<close>,
  with the \<open>decision\<close> when the RPC handler wrote it and the \<open>reason\<close> when \<open>reset\<close> did.
\<close>

record CompletedRequest = AgentRequest +
  completedAt :: nat
  completedStatus :: string
  completedDecision :: "cursor_decision option"
  completedReason :: "string option"

record CursorPermissionHandler =
  cursorPendingRequests :: "(string \<times> PendingRequest) list"
  cursorSettled :: "(nat \<times> cursor_settlement) list"
  cursorNextPromise :: nat
  cursorRequests :: "string \<rightharpoonup> AgentRequest"
  cursorCompletedRequests :: "string \<rightharpoonup> CompletedRequest"
  cursorDebugLog :: "string list"

definition newCursorPermissionHandler :: CursorPermissionHandler where
  "newCursorPermissionHandler =
     \<lparr>cursorPendingRequests = [], cursorSettled = [], cursorNextPromise = 0,
      cursorRequests = Map.empty, cursorCompletedRequests = Map.empty,
      cursorDebugLog = []\<rparr>"

definition complete ::
  "AgentRequest \<Rightarrow> nat \<Rightarrow> string \<Rightarrow> cursor_decision option \<Rightarrow> string option \<Rightarrow> CompletedRequest" where
  "complete request now how decided why =
     \<lparr>tool = tool request, arguments = arguments request, createdAt = createdAt request,
      completedAt = now, completedStatus = how, completedDecision = decided,
      completedReason = why\<rparr>"

text \<open>
  The \<open>permission\<close> RPC handler; the response has the fields \<open>id\<close>, \<open>approved\<close> and
  \<open>decision\<close> (its \<open>reason\<close> is not read), \<open>now\<close> is what \<open>Date.now()\<close> returns.
\<close>

definition cursor_permissionRpc ::
  "nat \<Rightarrow> string \<Rightarrow> bool \<Rightarrow> string option \<Rightarrow> CursorPermissionHandler \<Rightarrow> CursorPermissionHandler" where
  "cursor_permissionRpc now responseId isApproved responseDecision h =
     (case map_of (cursorPendingRequests h) responseId of
        None \<Rightarrow>
          h\<lparr>cursorDebugLog := cursorDebugLog h @
               [''[Cursor] Permission request not found or already resolved'']\<rparr>
      | Some pending \<Rightarrow>
          (let result =
                 (if isApproved
                  then (if responseDecision = Some ''approved_for_session''
                        then CursorApprovedForSession else CursorApproved)
                  else (if responseDecision = Some ''denied'' then CursorDenied else CursorAbort));
               h1 = h\<lparr>cursorPendingRequests := AList.delete responseId (cursorPendingRequests h),
                      cursorSettled := settle_promise (promise pending) (CursorResolved result)
                                         (cursorSettled h)\<rparr>;
               h2 = (case cursorRequests h1 responseId of
                       None \<Rightarrow> h1
                     | Some request \<Rightarrow>
                         h1\<lparr>cursorRequests := (cursorRequests h1)(responseId := None),
                            cursorCompletedRequests := (cursorCompletedRequests h1)
                              (responseId \<mapsto>
                                 complete request now (if isApproved then ''approved'' else ''denied'')
                                   (Some result) None)\<rparr>)
           in h2\<lparr>cursorDebugLog := cursorDebugLog h2 @
                    [''[Cursor] Permission '' @ (if isApproved then ''approved'' else ''denied'') @
                     '' for '' @ toolName pending]\<rparr>))"

definition cursor_handleToolCall ::
  "nat \<Rightarrow> string \<Rightarrow> string \<Rightarrow> jsval \<Rightarrow> CursorPermissionHandler \<Rightarrow> nat \<times> CursorPermissionHandler" where
  "cursor_handleToolCall now toolCallId name inp h =
     (cursorNextPromise h,
      h\<lparr>cursorPendingRequests :=
          AList.update toolCallId \<lparr>promise = cursorNextPromise h, toolName = name, input = inp\<rparr>
            (cursorPendingRequests h),
        cursorNextPromise := Suc (cursorNextPromise h),
        cursorRequests := (cursorRequests h)
          (toolCallId \<mapsto> \<lparr>tool = name, arguments = inp, createdAt = now\<rparr>),
        cursorDebugLog := cursorDebugLog h @
          [''[Cursor] Permission request sent for tool: '' @ name @ '' ('' @ toolCallId @ '')'']\<rparr>)"

text \<open>
  \<open>reset()\<close>: every pending promise is rejected with \<open>Session reset\<close>, the map is cleared,
  and every entry of \<open>requests\<close> in the agent state becomes a canceled entry of
  \<open>completedRequests\<close>.
\<close>

definition cursor_reset :: "nat \<Rightarrow> CursorPermissionHandler \<Rightarrow> CursorPermissionHandler" where
  "cursor_reset now h =
     h\<lparr>cursorSettled := fold (\<lambda>(responseId, pending). settle_promise (promise pending)
                                (CursorRejected ''Session reset''))
                           (cursorPendingRequests h) (cursorSettled h),
       cursorPendingRequests := [],
       cursorCompletedRequests :=
         (\<lambda>k. case cursorRequests h k of
                 Some request \<Rightarrow>
                   Some (complete request now ''canceled'' None (Some ''Session reset''))
               | None \<Rightarrow> cursorCompletedRequests h k),
       cursorRequests := Map.empty,
       cursorDebugLog := cursorDebugLog h @ [''[Cursor] Permission handler reset'']\<rparr>"

section \<open>Backend events\<close>

text \<open>
  The clients parse one JSON object per line of the backend's output and hand it to
  \<open>handleMessage\<close>; the parameter is typed \<open>any\<close>. The embedding fixes the shape that
  the functions below read: \<open>strs\<close> holds the properties that carry text or
  identifiers, each a string when present (\<open>type\<close>, \<open>message\<close>, \<open>tool_id\<close>,
  \<open>sessionId\<close>, ...); \<open>objs\<close> holds the properties that are objects with such
  properties (\<open>session\<close>, \<open>conversation\<close>); \<open>delta\<close> is whether \<open>msg.delta === true\<close>;
  \<open>payloads\<close> holds the properties passed on as they are (\<open>parameters\<close>, \<open>input\<close>,
  \<open>output\<close>, ...); \<open>stats\<close> is the object of token counts of a \<open>result\<close> event.
  Properties that no function reads are left out.
\<close>

record RawEvent =
  strs :: "string \<rightharpoonup> string"
  objs :: "string \<rightharpoonup> (string \<rightharpoonup> string)"
  delta :: bool
  payloads :: "string \<rightharpoonup> jsval"
  stats :: "(string \<rightharpoonup> int) option"

text \<open>\<open>msg.k?.j\<close>: \<open>undefined\<close> when \<open>msg.k\<close> is absent.\<close>

definition opt_chain :: "RawEvent \<Rightarrow> string \<Rightarrow> string \<Rightarrow> string option" where
  "opt_chain msg k j = (case objs msg k of None \<Rightarrow> None | Some ob \<Rightarrow> ob j)"

section \<open>The clients (\<open>GeminiClient\<close>, \<open>CursorClient\<close>)\<close>

text \<open>
  The two classes declare the same fields. \<open>process\<close> is the child process the client
  holds, \<open>stdoutReader\<close> the process whose standard output the line reader is attached
  to. What the client does to the operating system is recorded in \<open>osLog\<close>: the
  processes it spawns, with their command lines, the signals it sends and what it writes
  to a child's standard input. The \<open>handler\<close> field is set once by the session loop and
  is not part of the state.
\<close>

datatype stdio = inherit | pipe

record SpawnCall =
  command :: string
  args :: "string list"
  spawnCwd :: string
  stdioConfig :: stdio
  shell :: bool
  signal :: "nat option"

datatype os_action =
    Spawn nat SpawnCall
  | Kill nat
  | StdinWrite nat string
  | ReaderClose nat

record ChildProcess =
  pid :: nat
  killed :: bool
  piped :: bool

record Client =
  process :: "ChildProcess option"
  sessionId :: "string option"
  conversationId :: "string option"
  connected :: bool
  currentAbortSignal :: "nat option"
  stdoutReader :: "nat option"
  spawned :: nat
  osLog :: "os_action list"
  warnLog :: "string list"

definition newClient :: Client where
  "newClient =
     \<lparr>process = None, sessionId = None, conversationId = None, connected = False,
      currentAbortSignal = None, stdoutReader = None, spawned = 0, osLog = [],
      warnLog = []\<rparr>"

text \<open>
  \<open>updateIdentifiersFromMessage\<close>, the same text in both classes. The guard on a
  message that is not an object does not apply to a \<open>RawEvent\<close>. The two local
  constants \<open>sessionId\<close> and \<open>conversationId\<close> of the method are \<open>exposedSessionId\<close>
  and \<open>exposedConversationId\<close>.
\<close>

definition exposedSessionId :: "RawEvent \<Rightarrow> string option" where
  "exposedSessionId message =
     or_str (or_str (strs message ''sessionId'') (strs message ''session_id''))
       (opt_chain message ''session'' ''id'')"

definition exposedConversationId :: "RawEvent \<Rightarrow> string option" where
  "exposedConversationId message =
     or_str (or_str (strs message ''conversationId'') (strs message ''conversation_id''))
       (opt_chain message ''conversation'' ''id'')"

definition updateIdentifiersFromMessage :: "RawEvent \<Rightarrow> Client \<Rightarrow> Client" where
  "updateIdentifiersFromMessage message c =
     (let c1 = (if truthy_str (exposedSessionId message) \<and> \<not> truthy_str (sessionId c)
                then c\<lparr>sessionId := exposedSessionId message\<rparr> else c)
      in if truthy_str (exposedConversationId message) \<and> \<not> truthy_str (conversationId c1)
         then c1\<lparr>conversationId := exposedConversationId message\<rparr> else c1)"

text \<open>
  \<open>extractIdentifiers(response)\<close>, which overwrites; \<open>startSession\<close> calls it on the
  response it has just built, \<open>{ content: [], isError: false }\<close>.
\<close>

record ToolResponse =
  isError :: bool
  metaSessionId :: "string option"
  metaConversationId :: "string option"
  respSessionId :: "string option"
  respConversationId :: "string option"

definition emptyResponse :: ToolResponse where
  "emptyResponse =
     \<lparr>isError = False, metaSessionId = None, metaConversationId = None,
      respSessionId = None, respConversationId = None\<rparr>"

definition extractIdentifiers :: "ToolResponse \<Rightarrow> Client \<Rightarrow> Client" where
  "extractIdentifiers response c =
     (let c1 = (if truthy_str (metaSessionId response)
                then c\<lparr>sessionId := metaSessionId response\<rparr>
                else if truthy_str (respSessionId response)
                then c\<lparr>sessionId := respSessionId response\<rparr> else c)
      in if truthy_str (metaConversationId response)
         then c1\<lparr>conversationId := metaConversationId response\<rparr>
         else if truthy_str (respConversationId response)
         then c1\<lparr>conversationId := respConversationId response\<rparr> else c1)"

definition hasActiveSession :: "Client \<Rightarrow> bool" where
  "hasActiveSession c = (case process c of None \<Rightarrow> False | Some p \<Rightarrow> \<not> killed p)"

definition clearSession :: "Client \<Rightarrow> Client" where
  "clearSession c =
     (let c1 = (case process c of
                  Some p \<Rightarrow> c\<lparr>process := None, osLog := osLog c @ [Kill (pid p)]\<rparr>
                | None \<Rightarrow> c);
          c2 = (case stdoutReader c1 of
                  Some r \<Rightarrow> c1\<lparr>stdoutReader := None, osLog := osLog c1 @ [ReaderClose r]\<rparr>
                | None \<Rightarrow> c1)
      in c2\<lparr>sessionId := None, conversationId := None\<rparr>)"

text \<open>
  The listener for the \<open>exit\<close> event of a child process the client spawned. It acts
  on the fields as they are when the event arrives.
\<close>

definition onProcessExit :: "Client \<Rightarrow> Client" where
  "onProcessExit c =
     (let c1 = (case stdoutReader c of
                  Some r \<Rightarrow> c\<lparr>stdoutReader := None, osLog := osLog c @ [ReaderClose r]\<rparr>
                | None \<Rightarrow> c)
      in c1\<lparr>process := None\<rparr>)"


text \<open>
  A line reader is created for every process that is spawned with a pipe, on that
  process's standard output, and it passes each line to \<open>handleMessage\<close> until it is
  closed. Only \<open>clearSession\<close> and the \<open>exit\<close> listener close a reader, and they close
  the one in \<open>stdoutReader\<close>: \<open>startSession\<close> puts a new reader there without closing
  the one before. \<open>openReaders\<close> are the readers created and not closed. A reader
  also stops when the stream it reads ends, which the model does not follow: a reader in
  \<open>openReaders\<close> can deliver a line, it need not.
\<close>

fun readerOf :: "os_action \<Rightarrow> nat option" where
  "readerOf (Spawn n call) = (if stdioConfig call = pipe then Some n else None)"
| "readerOf (Kill n) = None"
| "readerOf (StdinWrite n line) = None"
| "readerOf (ReaderClose n) = None"

definition openReaders :: "Client \<Rightarrow> nat list" where
  "openReaders c =
     filter (\<lambda>n. ReaderClose n \<notin> set (osLog c)) (List.map_filter readerOf (osLog c))"

section \<open>Starting and continuing a backend session\<close>

text \<open>
  \<open>GeminiSessionConfig\<close> and \<open>CursorSessionConfig\<close> are one record here; only the
  Cursor configuration has \<open>outputFormat\<close>. \<open>Env\<close> is what the functions read from
  their surroundings: \<open>cliPath\<close> is the result of \<open>getGeminiCliPath()\<close> or
  \<open>getCursorAgentPath()\<close> (a probe of the file system), \<open>spawnThrows\<close> the error that
  \<open>spawn\<close> throws when it throws, \<open>processCwd\<close> the value of \<open>process.cwd()\<close>,
  \<open>interactiveVar\<close> the environment variable \<open>VIBE_GEMINI_INTERACTIVE\<close>,
  \<open>bridgeCommand\<close> and \<open>vibeServerUrl\<close> the path of the MCP bridge and the address of
  the local server that the session loop starts, \<open>dateNow\<close> what \<open>Date.now()\<close> returns.
  The functions \<open>JSON.stringify\<close> and \<open>trimIdent\<close> are parameters.
\<close>

record SessionConfig =
  prompt :: "string option"
  model :: "string option"
  cwd :: "string option"
  mcpServers :: "(string \<times> jsval) list option"
  outputFormat :: "string option"

record JsError =
  errName :: string
  errMessage :: string

record Env =
  cliPath :: "string option"
  spawnThrows :: "JsError option"
  stdinWriteThrows :: bool
  processCwd :: string
  interactiveVar :: "string option"
  stdinIsTTY :: bool
  stdoutIsTTY :: bool
  win32 :: bool
  jsonStringify :: "jsval \<Rightarrow> string"
  trimIdent :: "string \<Rightarrow> string"
  bridgeCommand :: string
  vibeServerUrl :: string
  dateNow :: nat

definition forceInteractive :: "Env \<Rightarrow> bool" where
  "forceInteractive env =
     (let interactiveEnv = toLowerCase (case interactiveVar env of None \<Rightarrow> [] | Some v \<Rightarrow> v)
      in interactiveEnv = ''1'' \<or> interactiveEnv = ''true'' \<or> interactiveEnv = ''yes'')"

text \<open>
  The steps that the two \<open>startSession\<close> methods share: the process the client holds
  is sent \<open>SIGTERM\<close> and forgotten; an option is added to the command line when its
  value is truthy; the new process is recorded, with a line reader on its standard
  output unless the standard streams are inherited.
\<close>

definition killExisting :: "Client \<Rightarrow> Client" where
  "killExisting c =
     (case process c of
        Some p \<Rightarrow> c\<lparr>process := None, osLog := osLog c @ [Kill (pid p)]\<rparr>
      | None \<Rightarrow> c)"

definition mcpConfigured :: "SessionConfig \<Rightarrow> bool" where
  "mcpConfigured config = (case mcpServers config of None \<Rightarrow> False | Some servers \<Rightarrow> servers \<noteq> [])"

definition optArg :: "string \<Rightarrow> string option \<Rightarrow> string list" where
  "optArg flag v = (case v of None \<Rightarrow> [] | Some s \<Rightarrow> if s \<noteq> [] then [flag, s] else [])"

definition doSpawn :: "SpawnCall \<Rightarrow> bool \<Rightarrow> Client \<Rightarrow> Client" where
  "doSpawn call isInteractive c =
     (let c1 = c\<lparr>process := Some \<lparr>pid = spawned c, killed = False, piped = \<not> isInteractive\<rparr>,
                  spawned := Suc (spawned c),
                  osLog := osLog c @ [Spawn (spawned c) call]\<rparr>
      in if \<not> isInteractive then c1\<lparr>stdoutReader := Some (spawned c)\<rparr> else c1)"

text \<open>\<open>GeminiClient.startSession(config, options)\<close>; \<open>sig\<close> is \<open>options?.signal\<close>.\<close>

definition gemini_startSession ::
  "Env \<Rightarrow> SessionConfig \<Rightarrow> nat option \<Rightarrow> Client \<Rightarrow> (JsError + ToolResponse) \<times> Client" where
  "gemini_startSession env config sig c =
     (let c1 = killExisting (c\<lparr>connected := True\<rparr>)
      in case cliPath env of
           None \<Rightarrow>
             (Inl \<lparr>errName = ''Error'',
                   errMessage = ''Gemini CLI not found. Please install it: npm install -g @google/gemini-cli''\<rparr>,
              c1)
         | Some geminiPath \<Rightarrow>
             (let isInteractive = (forceInteractive env \<and> stdinIsTTY env \<and> stdoutIsTTY env \<and>
                                   \<not> truthy_str (prompt config));
                  theArgs = (if \<not> isInteractive
                             then [''--output-format'', ''stream-json''] @ optArg ''-p'' (prompt config)
                             else [])
                            @ optArg ''-m'' (model config);
                  c2 = (if mcpConfigured config
                        then c1\<lparr>warnLog := warnLog c1 @
                          [''[Gemini] MCP servers requested but current Gemini CLI build does not accept --mcp-config; please configure MCP via `gemini mcp` commands.'']\<rparr>
                        else c1);
                  dir = or_default (cwd config) (processCwd env);
                  c3 = c2\<lparr>currentAbortSignal := sig\<rparr>
              in case spawnThrows env of
                   Some e \<Rightarrow>
                     (Inl \<lparr>errName = ''Error'',
                           errMessage = ''Failed to start Gemini CLI ('' @ errMessage e @
                                        ''). Tried path: '' @ geminiPath\<rparr>,
                      c3)
                 | None \<Rightarrow>
                     (Inr emptyResponse,
                      extractIdentifiers emptyResponse
                        (doSpawn \<lparr>command = geminiPath, args = theArgs, spawnCwd = dir,
                                  stdioConfig = (if isInteractive then inherit else pipe),
                                  shell = False, signal = sig\<rparr> isInteractive c3))))"

text \<open>\<open>GeminiClient.continueSession(prompt, options)\<close>.\<close>

definition gemini_continueSession ::
  "Env \<Rightarrow> string \<Rightarrow> nat option \<Rightarrow> Client \<Rightarrow> (JsError + ToolResponse) \<times> Client" where
  "gemini_continueSession env newPrompt sig c =
     gemini_startSession env
       \<lparr>prompt = Some newPrompt, model = None, cwd = Some (processCwd env),
        mcpServers = None, outputFormat = None\<rparr> sig c"

text \<open>
  \<open>CursorClient.startSession\<close>. Here \<open>spawn\<close> is not inside a \<open>try\<close>: what it throws
  leaves the function as it is.
\<close>

definition isFullPath :: "string \<Rightarrow> bool" where
  "isFullPath p = (CHR 0x5C \<in> set p \<or> CHR ''/'' \<in> set p \<or> CHR '':'' \<in> set p)"

definition cursor_startSession ::
  "Env \<Rightarrow> SessionConfig \<Rightarrow> nat option \<Rightarrow> Client \<Rightarrow> (JsError + ToolResponse) \<times> Client" where
  "cursor_startSession env config sig c =
     (let c1 = killExisting (c\<lparr>connected := True\<rparr>)
      in case cliPath env of
           None \<Rightarrow>
             (Inl \<lparr>errName = ''Error'',
                   errMessage = ''Cursor CLI (cursor-agent) not found. Please install it: curl https://cursor.com/install -fsS | bash''\<rparr>,
              c1)
         | Some cursorPath \<Rightarrow>
             (let isInteractive = (stdinIsTTY env \<and> stdoutIsTTY env \<and> \<not> truthy_str (prompt config));
                  theArgs = (if isInteractive then []
                             else optArg ''--output-format'' (outputFormat config)
                                  @ optArg ''-p'' (prompt config))
                            @ optArg ''--model'' (model config)
                            @ (case mcpServers config of
                                 None \<Rightarrow> []
                               | Some servers \<Rightarrow>
                                   if servers \<noteq> []
                                   then [''--mcp-config'',
                                         jsonStringify env (JObj [(''mcpServers'', JObj servers)])]
                                   else []);
                  dir = or_default (cwd config) (processCwd env);
                  c3 = c1\<lparr>currentAbortSignal := sig\<rparr>
              in case spawnThrows env of
                   Some e \<Rightarrow> (Inl e, c3)
                 | None \<Rightarrow>
                     (Inr emptyResponse,
                      extractIdentifiers emptyResponse
                        (doSpawn \<lparr>command = cursorPath, args = theArgs, spawnCwd = dir,
                                  stdioConfig = (if isInteractive then inherit else pipe),
                                  shell = (win32 env \<and> \<not> isFullPath cursorPath),
                                  signal = sig\<rparr> isInteractive c3))))"

text \<open>
  \<open>CursorClient.continueSession\<close>: the prompt is written to the standard input of the
  running process when there is one with a pipe; otherwise, or when the write throws, a
  new session is started.
\<close>

definition cursor_continueSession ::
  "Env \<Rightarrow> string \<Rightarrow> nat option \<Rightarrow> Client \<Rightarrow> (JsError + ToolResponse) \<times> Client" where
  "cursor_continueSession env newPrompt sig c =
     (let fresh = cursor_startSession env
                    \<lparr>prompt = Some newPrompt, model = None, cwd = Some (processCwd env),
                     mcpServers = None, outputFormat = None\<rparr> sig
      in case process c of
           None \<Rightarrow> fresh c
         | Some p \<Rightarrow>
             if \<not> piped p then fresh c
             else if stdinWriteThrows env then fresh c
             else (Inr emptyResponse,
                   c\<lparr>osLog := osLog c @ [StdinWrite (pid p) (newPrompt @ [CHR 0x0A])]\<rparr>))"

text \<open>The two backends behind one interface, as the two session loops use them.\<close>

datatype backend = Gemini | Cursor

definition startSession ::
  "backend \<Rightarrow> Env \<Rightarrow> SessionConfig \<Rightarrow> nat option \<Rightarrow> Client \<Rightarrow> (JsError + ToolResponse) \<times> Client" where
  "startSession b = (case b of Gemini \<Rightarrow> gemini_startSession | Cursor \<Rightarrow> cursor_startSession)"

definition continueSession ::
  "backend \<Rightarrow> Env \<Rightarrow> string \<Rightarrow> nat option \<Rightarrow> Client \<Rightarrow> (JsError + ToolResponse) \<times> Client" where
  "continueSession b = (case b of Gemini \<Rightarrow> gemini_continueSession | Cursor \<Rightarrow> cursor_continueSession)"




section \<open>The message queue (\<open>MessageQueue2\<close>)\<close>

text \<open>
  The session loops queue user messages in a \<open>MessageQueue2\<close>, tagged with the mode they
  were sent under: the permission mode and the model. The class is imported from
  \<open>@/utils/MessageQueue2\<close>, which is not among the sources, and so is the hash function
  \<open>hashObject\<close> that the loops give to its constructor; the hash function is the field
  \<open>modeHasher\<close>, a parameter.
\<close>

record EnhancedMode =
  permissionMode :: string
  modeModel :: "string option"

record QueuedMessage =
  qText :: string
  qMode :: EnhancedMode
  qHash :: string
  isolated :: bool

record MessageQueue2 =
  queue :: "QueuedMessage list"
  modeHasher :: "EnhancedMode \<Rightarrow> string"
  separator :: string

record Batch =
  message :: string
  mode :: EnhancedMode
  hash :: string

text \<open>
  Modelled from the spec: \<open>MessageQueue2.push\<close>, which is not among the sources. Section
  4.1: "appends a QueuedMessage".
\<close>

definition push :: "string \<Rightarrow> EnhancedMode \<Rightarrow> MessageQueue2 \<Rightarrow> MessageQueue2" where
  "push text m q =
     q\<lparr>queue := queue q @ [\<lparr>qText = text, qMode = m, qHash = modeHasher q m, isolated = False\<rparr>]\<rparr>"

text \<open>
  Modelled from the spec: \<open>MessageQueue2.reset\<close>, which is not among the sources. Section
  4.1: "discards all queued, undrained messages".
\<close>

definition queueReset :: "MessageQueue2 \<Rightarrow> MessageQueue2" where
  "queueReset q = q\<lparr>queue := []\<rparr>"

text \<open>
  Modelled from the spec: the batch that \<open>MessageQueue2.waitForMessagesAndGetAsString\<close>
  drains, which is not among the sources. Section 4.1: it "drains the head message plus
  every immediately following message sharing its fingerprint and not marked isolated,
  stopping at the first differing fingerprint, isolated message, or empty queue; joins
  text in arrival order with a separator". An isolated head message is drained alone
  ("can never be merged with neighbors"). The separator is the field \<open>separator\<close>.
\<close>

fun joinWith :: "string \<Rightarrow> string list \<Rightarrow> string" where
  "joinWith sep [] = []"
| "joinWith sep [x] = x"
| "joinWith sep (x # y # ys) = x @ sep @ joinWith sep (y # ys)"

definition collectBatch :: "MessageQueue2 \<Rightarrow> (Batch \<times> MessageQueue2) option" where
  "collectBatch q =
     (case queue q of
        [] \<Rightarrow> None
      | m # rest \<Rightarrow>
          (let same = (if isolated m then []
                       else takeWhile (\<lambda>x. qHash x = qHash m \<and> \<not> isolated x) rest)
           in Some (\<lparr>message = joinWith (separator q) (map qText (m # same)),
                      mode = qMode m, hash = qHash m\<rparr>,
                    q\<lparr>queue := drop (length same) rest\<rparr>)))"

text \<open>
  Modelled from the spec: the result of awaiting
  \<open>waitForMessagesAndGetAsString(signal)\<close>. Section 4.1: it "suspends until at least one
  message is queued or the token is canceled" and "returns null on cancellation without
  discarding anything undrained". \<open>Pending\<close> is the call still suspended; queued
  messages are looked at before the token.
\<close>

datatype wait_result = Pending | Null | Got Batch MessageQueue2

definition waitForMessagesAndGetAsString :: "bool \<Rightarrow> MessageQueue2 \<Rightarrow> wait_result" where
  "waitForMessagesAndGetAsString cancelled q =
     (case collectBatch q of
        Some (batch, q') \<Rightarrow> Got batch q'
      | None \<Rightarrow> if cancelled then Null else Pending)"


section \<open>The session (\<open>runGemini\<close>, \<open>runCursor\<close>)\<close>

text \<open>
  What a session hands to its surroundings, in order: the messages for the remote
  client (\<open>session.sendGeminiMessage\<close>, \<open>session.sendCursorMessage\<close>), each with the
  \<open>id\<close> that \<open>randomUUID()\<close> gave it, the keep-alive calls, the session events, the
  usage data, the push notification of \<open>sendReady\<close> and the calls of the final cleanup.
  The n-th result of \<open>randomUUID()\<close> in a session is the number n; an identifier of a
  tool call is either a string of the backend's event or such a fresh one.
\<close>

datatype ident = Given string | Fresh nat

datatype agent_message =
    Message string
  | ToolCall string ident jsval
  | ToolCallResult ident jsval "bool option"
  | Thinking string
  | ErrorMessage string
  | SystemMessage string

datatype session_event = Ready | EventMessage string

datatype effect =
    SendAgentMessage agent_message nat
  | KeepAlive bool
  | SendSessionEvent session_event
  | SendUsageData int int
  | PushToAllDevices
  | SessionDeath
  | SessionFlush
  | SessionClose
  | VibeServerStop
  | StopCaffeinate

text \<open>
  The variables of \<open>runGemini\<close> and \<open>runCursor\<close> that their closures share, and the
  objects they hold. \<open>abortController\<close> counts the controllers created so far (the
  current one is the last), \<open>abortedControllers\<close> lists those whose \<open>abort()\<close> was
  called, \<open>waitToken\<close> is the signal that the suspended call of the queue was given.
  \<open>awaitingExit\<close> says that the loop is inside the promise that, in interactive mode,
  waits for the child process to end. \<open>exited\<close> says that the loop has been left and
  the final cleanup has run. The timer that repeats the keep-alive call every two
  seconds is left out. \<open>runCursor\<close> has no \<open>currentMessageContent\<close> and no
  \<open>isStreamingMessage\<close>. \<open>runGemini\<close> creates a \<open>GeminiPermissionHandler\<close>, which is
  \<open>permissionHandler\<close>, and \<open>runCursor\<close> a \<open>CursorPermissionHandler\<close>, which is
  \<open>cursorPermissionHandler\<close>: a session uses the one of its backend and never touches
  the other.
\<close>

record Session =
  thinking :: bool
  currentMessageContent :: string
  isStreamingMessage :: bool
  uuidCount :: nat
  outbox :: "effect list"
  isFirst :: bool
  wasCreated :: bool
  currentModeHash :: "string option"
  shouldExit :: bool
  abortController :: nat
  abortedControllers :: "nat list"
  waitToken :: "nat option"
  awaitingExit :: bool
  exited :: bool
  currentPermissionMode :: "string option"
  currentModel :: "string option"
  messageQueue :: MessageQueue2
  client :: Client
  permissionHandler :: GeminiPermissionHandler
  cursorPermissionHandler :: CursorPermissionHandler

definition newSession :: "(EnhancedMode \<Rightarrow> string) \<Rightarrow> string \<Rightarrow> Session" where
  "newSession hasher sep =
     \<lparr>thinking = False, currentMessageContent = [], isStreamingMessage = False,
      uuidCount = 0, outbox = [KeepAlive False], isFirst = True, wasCreated = False,
      currentModeHash = None, shouldExit = False, abortController = 0,
      abortedControllers = [], waitToken = None, awaitingExit = False, exited = False,
      currentPermissionMode = None, currentModel = None,
      messageQueue = \<lparr>queue = [], modeHasher = hasher, separator = sep\<rparr>,
      client = newClient\<lparr>connected := True\<rparr>,
      permissionHandler = newPermissionHandler,
      cursorPermissionHandler = newCursorPermissionHandler\<rparr>"

definition emit :: "effect \<Rightarrow> Session \<Rightarrow> Session" where
  "emit e s = s\<lparr>outbox := outbox s @ [e]\<rparr>"

text \<open>\<open>session.sendGeminiMessage({ ..., id: randomUUID() })\<close>, and the Cursor one.\<close>

definition sendAgentMessage :: "agent_message \<Rightarrow> Session \<Rightarrow> Session" where
  "sendAgentMessage body s =
     s\<lparr>outbox := outbox s @ [SendAgentMessage body (uuidCount s)], uuidCount := Suc (uuidCount s)\<rparr>"

definition sendReady :: "Session \<Rightarrow> Session" where
  "sendReady s = emit PushToAllDevices (emit (SendSessionEvent Ready) s)"

definition setThinking :: "bool \<Rightarrow> Session \<Rightarrow> Session" where
  "setThinking b s = emit (KeepAlive b) (s\<lparr>thinking := b\<rparr>)"

text \<open>The handler of user messages, \<open>session.onUserMessage\<close>.\<close>

record UserMessage =
  contentText :: string
  metaPermissionMode :: "string option"
  metaModel :: "string option option"

definition onUserMessage :: "UserMessage \<Rightarrow> Session \<Rightarrow> Session" where
  "onUserMessage um s =
     (let s1 = (if truthy_str (metaPermissionMode um) \<and>
                   or_default (metaPermissionMode um) [] \<in>
                     set [''default'', ''read-only'', ''safe-yolo'', ''yolo'']
                then s\<lparr>currentPermissionMode := metaPermissionMode um\<rparr> else s);
          s2 = (case metaModel um of
                  None \<Rightarrow> s1
                | Some m \<Rightarrow> s1\<lparr>currentModel := (if truthy_str m then m else None)\<rparr>)
      in s2\<lparr>messageQueue :=
              push (contentText um)
                \<lparr>permissionMode = or_default (currentPermissionMode s2) ''default'',
                 modeModel = currentModel s2\<rparr> (messageQueue s2)\<rparr>)"


section \<open>Normalizing backend events\<close>

subsection \<open>\<open>isGeminiDebugOutput\<close>\<close>

text \<open>
  The regular expression \<open>/^\[?(DEBUG|INFO|TRACE|WARN)\]?\s/i\<close>: an optional opening
  bracket, one of the four words in either case, an optional closing bracket, a
  white-space character.
\<close>

definition dropOne :: "char \<Rightarrow> string \<Rightarrow> string" where
  "dropOne c s = (case s of [] \<Rightarrow> [] | x # r \<Rightarrow> if x = c then r else s)"

definition levelAt :: "string \<Rightarrow> string \<Rightarrow> bool" where
  "levelAt w s =
     (toLowerCase (take (length w) s) = w \<and>
      (case dropOne CHR '']'' (drop (length w) s) of [] \<Rightarrow> False | x # r \<Rightarrow> is_space x))"

definition re_logPrefix :: "string \<Rightarrow> bool" where
  "re_logPrefix text =
     list_ex (\<lambda>w. levelAt w (dropOne CHR ''['' text)) [''debug'', ''info'', ''trace'', ''warn'']"

text \<open>\<open>/^\s*[\[\{]/\<close>, \<open>/^\s*\d+,?\s*$/\<close> and \<open>/^\s*[\]\}],?\s*$/\<close>.\<close>

definition re_jsonStart :: "string \<Rightarrow> bool" where
  "re_jsonStart text =
     (case dropWhile is_space text of [] \<Rightarrow> False | x # r \<Rightarrow> x = CHR ''['' \<or> x = CHR ''{'')"

definition re_justNumber :: "string \<Rightarrow> bool" where
  "re_justNumber text =
     (let s = dropWhile is_space text
      in takeWhile is_digit s \<noteq> [] \<and>
         list_all is_space (dropOne CHR '','' (dropWhile is_digit s)))"

definition re_justCloser :: "string \<Rightarrow> bool" where
  "re_justCloser text =
     (case dropWhile is_space text of
        [] \<Rightarrow> False
      | x # r \<Rightarrow> (x = CHR '']'' \<or> x = CHR ''}'') \<and> list_all is_space (dropOne CHR '','' r))"

definition isGeminiDebugOutput :: "string \<Rightarrow> bool" where
  "isGeminiDebugOutput text =
     (text = [] \<or>
      re_logPrefix text \<or>
      str_includes text ''[MemoryDiscovery]'' \<or>
      str_includes text ''[BfsFileSearch]'' \<or>
      str_includes text ''[AgentRegistry]'' \<or>
      str_includes text ''Scanning ['' \<or>
      str_includes text ''batch of'' \<or>
      str_includes text ''Experiments loaded'' \<or>
      str_includes text ''experimentIds'' \<or>
      str_includes text ''flagId'' \<or>
      str_includes text ''floatValue'' \<or>
      str_includes text ''stringValue'' \<or>
      str_includes text ''Session ID:'' \<or>
      str_includes text ''Flushing log events'' \<or>
      str_includes text ''Clearcut'' \<or>
      str_includes text ''cached credentials'' \<or>
      str_includes text ''Loaded cached'' \<or>
      startsWith text ''Loading'' \<or>
      startsWith text ''Loaded'' \<or>
      startsWith text ''Found readable'' \<or>
      startsWith text ''Searching for'' \<or>
      startsWith text ''Determined project'' \<or>
      startsWith text ''Initialized with'' \<or>
      re_jsonStart text \<or>
      re_justNumber text \<or>
      re_justCloser text)"

subsection \<open>The handler of \<open>runGemini\<close>\<close>

text \<open>
  The properties an event is read through: \<open>firstStr msg [a, b, c]\<close> is
  \<open>msg.a || msg.b || msg.c\<close>, and \<open>firstVal msg [a, b]\<close> is \<open>msg.a || msg.b || {}\<close>.
\<close>

definition msgType :: "RawEvent \<Rightarrow> string" where
  "msgType msg = or_default (or_str (strs msg ''type'') (strs msg ''event'')) ''unknown''"

fun firstStr :: "RawEvent \<Rightarrow> string list \<Rightarrow> string option" where
  "firstStr msg [] = None"
| "firstStr msg [k] = strs msg k"
| "firstStr msg (k # ks) = or_str (strs msg k) (firstStr msg ks)"

definition firstVal :: "RawEvent \<Rightarrow> string list \<Rightarrow> jsval" where
  "firstVal msg keys =
     (case foldr (\<lambda>k rest. or_val (payloads msg k) rest) keys None of
        None \<Rightarrow> JObj []
      | Some v \<Rightarrow> if truthy v then v else JObj [])"

text \<open>
  An identifier of a tool call: the first truthy one of the given properties, or else a
  fresh \<open>randomUUID()\<close>.
\<close>

definition callIdOf :: "RawEvent \<Rightarrow> string list \<Rightarrow> Session \<Rightarrow> ident \<times> Session" where
  "callIdOf msg keys s =
     (if truthy_str (firstStr msg keys)
      then (Given (or_default (firstStr msg keys) []), s)
      else (Fresh (uuidCount s), s\<lparr>uuidCount := Suc (uuidCount s)\<rparr>))"

definition isErrorStatus :: "RawEvent \<Rightarrow> bool" where
  "isErrorStatus msg = (strs msg ''status'' = Some ''error'' \<or> strs msg ''status'' = Some ''failed'')"

definition flushAccumulatedMessage :: "Session \<Rightarrow> Session" where
  "flushAccumulatedMessage s =
     (if isStreamingMessage s \<and> currentMessageContent s \<noteq> []
      then (sendAgentMessage (Message (currentMessageContent s)) s)
             \<lparr>currentMessageContent := [], isStreamingMessage := False\<rparr>
      else s)"

definition statCount :: "(string \<rightharpoonup> int) \<Rightarrow> string \<Rightarrow> int" where
  "statCount st k = (case st k of None \<Rightarrow> 0 | Some n \<Rightarrow> n)"

definition gemini_handler :: "RawEvent \<Rightarrow> Session \<Rightarrow> Session" where
  "gemini_handler msg s =
     (let t = msgType msg in
      if t \<in> set [''message'', ''assistant'', ''assistant_message''] then
        (let messageText = or_default (firstStr msg [''message'', ''text'', ''content'']) []
         in if delta msg
            then s\<lparr>isStreamingMessage := True,
                   currentMessageContent := currentMessageContent s @ messageText\<rparr>
            else
              (let finalContent = (if isStreamingMessage s
                                   then currentMessageContent s @ messageText else messageText);
                   s1 = (if finalContent \<noteq> [] then sendAgentMessage (Message finalContent) s else s)
               in setThinking False (s1\<lparr>currentMessageContent := [], isStreamingMessage := False\<rparr>)))
      else if t = ''tool_use'' then
        (let s1 = flushAccumulatedMessage s;
             (cid, s2) = callIdOf msg [''tool_id'', ''toolId'', ''call_id''] s1
         in sendAgentMessage
              (ToolCall (or_default (firstStr msg [''tool_name'', ''name'']) ''unknown'') cid
                 (firstVal msg [''parameters'', ''input''])) s2)
      else if t \<in> set [''tool_call'', ''function_call''] then
        (let s1 = flushAccumulatedMessage s;
             (cid, s2) = callIdOf msg [''call_id'', ''tool_id'', ''toolId'', ''id''] s1
         in sendAgentMessage
              (ToolCall (or_default (firstStr msg [''name'', ''function_name'', ''tool_name'']) ''unknown'')
                 cid (firstVal msg [''input'', ''arguments'', ''parameters''])) s2)
      else if t = ''tool_result'' then
        (let (cid, s1) = callIdOf msg [''tool_id'', ''toolId'', ''call_id'', ''id''] s
         in sendAgentMessage
              (ToolCallResult cid (firstVal msg [''output'', ''result'']) (Some (isErrorStatus msg))) s1)
      else if t = ''function_result'' then
        (let (cid, s1) = callIdOf msg [''call_id'', ''tool_id'', ''toolId'', ''id''] s
         in sendAgentMessage
              (ToolCallResult cid (firstVal msg [''output'', ''result'']) (Some (isErrorStatus msg))) s1)
      else if t \<in> set [''thinking'', ''reasoning''] then
        (let s1 = (if \<not> thinking s then setThinking True s else s)
         in if truthy_str (firstStr msg [''text'', ''content''])
            then sendAgentMessage (Thinking (or_default (firstStr msg [''text'', ''content'']) [])) s1
            else s1)
      else if t = ''error'' then
        (let errorText = or_default (firstStr msg [''message'', ''error'']) []
         in if errorText \<noteq> [] \<and> \<not> isGeminiDebugOutput errorText
            then sendAgentMessage (ErrorMessage errorText) s else s)
      else if t \<in> set [''system'', ''system_message''] then
        sendAgentMessage (SystemMessage (or_default (firstStr msg [''message'', ''text'']) [])) s
      else if t \<in> set [''done'', ''complete'', ''finished''] then
        sendReady (setThinking False (flushAccumulatedMessage s))
      else if t = ''result'' then
        (let s1 = setThinking False (flushAccumulatedMessage s);
             s2 = (case stats msg of
                     None \<Rightarrow> s1
                   | Some st \<Rightarrow>
                       emit (SendUsageData (statCount st ''input_tokens'')
                               (statCount st ''output_tokens'')) s1)
         in sendReady s2)
      else if t \<in> set [''progress'', ''status'', ''log'', ''debug'', ''info''] then s
      else
        (case firstStr msg [''message'', ''text'', ''content''] of
           None \<Rightarrow> s
         | Some unknownText \<Rightarrow>
             if unknownText \<noteq> [] \<and> \<not> isGeminiDebugOutput unknownText
             then sendAgentMessage (Message unknownText) s else s))"

text \<open>
  \<open>GeminiClient.handleMessage\<close>: the identifiers are updated, then the message goes to
  the handler that \<open>runGemini\<close> has set.
\<close>

definition gemini_handleMessage :: "RawEvent \<Rightarrow> Session \<Rightarrow> Session" where
  "gemini_handleMessage msg s =
     gemini_handler msg (s\<lparr>client := updateIdentifiersFromMessage msg (client s)\<rparr>)"

text \<open>An event of type \<open>error\<close> as the clients build it from a text.\<close>

definition errorEvent :: "string \<Rightarrow> RawEvent" where
  "errorEvent text =
     \<lparr>strs = [''type'' \<mapsto> ''error'', ''message'' \<mapsto> text], objs = Map.empty, delta = False,
      payloads = Map.empty, stats = None\<rparr>"

text \<open>
  The listener of \<open>GeminiClient\<close> for data on the standard error of the child process,
  with its own list of patterns.
\<close>

definition re_numberComma :: "string \<Rightarrow> bool" where
  "re_numberComma text =
     (let s = dropWhile is_space text
      in takeWhile is_digit s \<noteq> [] \<and> dropWhile is_digit s = '','')"

definition re_closerStart :: "string \<Rightarrow> bool" where
  "re_closerStart text =
     (case dropWhile is_space text of [] \<Rightarrow> False | x # r \<Rightarrow> x = CHR '']'')"

definition isStderrDebugOutput :: "string \<Rightarrow> bool" where
  "isStderrDebugOutput text =
     (re_logPrefix text \<or>
      str_includes text ''[MemoryDiscovery]'' \<or>
      str_includes text ''[BfsFileSearch]'' \<or>
      str_includes text ''[AgentRegistry]'' \<or>
      str_includes text ''Scanning ['' \<or>
      str_includes text ''batch of'' \<or>
      str_includes text ''Experiments loaded'' \<or>
      str_includes text ''experimentIds'' \<or>
      str_includes text ''flagId'' \<or>
      str_includes text ''Session ID:'' \<or>
      str_includes text ''Flushing log events'' \<or>
      str_includes text ''Clearcut'' \<or>
      str_includes text ''cached credentials'' \<or>
      startsWith text ''Loading'' \<or>
      startsWith text ''Loaded'' \<or>
      startsWith text ''Found readable'' \<or>
      startsWith text ''Searching for'' \<or>
      startsWith text ''Determined project'' \<or>
      re_jsonStart text \<or>
      re_numberComma text \<or>
      re_closerStart text)"

definition gemini_onStderr :: "string \<Rightarrow> Session \<Rightarrow> Session" where
  "gemini_onStderr chunk s =
     (let text = trim chunk
      in if \<not> isStderrDebugOutput text \<and> text \<noteq> []
         then gemini_handler (errorEvent text) s else s)"

subsection \<open>The handler of \<open>runCursor\<close>\<close>

definition cursor_handler :: "RawEvent \<Rightarrow> Session \<Rightarrow> Session" where
  "cursor_handler msg s =
     (let t = msgType msg in
      if t \<in> set [''message'', ''assistant'', ''assistant_message''] then
        (let s1 = sendAgentMessage
                    (Message (or_default (firstStr msg [''message'', ''text'', ''content'']) [])) s
         in if t = ''message'' \<or> t = ''assistant'' then setThinking False s1 else s1)
      else if t \<in> set [''tool_call'', ''function_call''] then
        (let (cid, s1) = callIdOf msg [''call_id'', ''id''] s
         in sendAgentMessage
              (ToolCall (or_default (firstStr msg [''name'', ''function_name'']) ''unknown'') cid
                 (firstVal msg [''input'', ''arguments''])) s1)
      else if t \<in> set [''tool_result'', ''function_result''] then
        (let (cid, s1) = callIdOf msg [''call_id'', ''id''] s
         in sendAgentMessage (ToolCallResult cid (firstVal msg [''output'', ''result'']) None) s1)
      else if t \<in> set [''thinking'', ''reasoning''] then
        (let s1 = (if \<not> thinking s then setThinking True s else s)
         in if truthy_str (firstStr msg [''text'', ''content'', ''message''])
            then sendAgentMessage
                   (Thinking (or_default (firstStr msg [''text'', ''content'', ''message'']) [])) s1
            else s1)
      else if t = ''error'' then
        sendAgentMessage
          (ErrorMessage (or_default (firstStr msg [''message'', ''error'']) ''Unknown error'')) s
      else if t \<in> set [''system'', ''system_message''] then
        sendAgentMessage (SystemMessage (or_default (firstStr msg [''message'', ''text'']) [])) s
      else if t \<in> set [''done'', ''complete'', ''finished''] then
        sendReady (setThinking False s)
      else
        (if truthy_str (firstStr msg [''message'', ''text'', ''content''])
         then sendAgentMessage
                (Message (or_default (firstStr msg [''message'', ''text'', ''content'']) [])) s
         else s))"

text \<open>
  The listener of \<open>CursorClient\<close> for data on the standard error of the child process:
  the text goes to the handler as an error event, as it is.
\<close>

definition cursor_onStderr :: "string \<Rightarrow> Session \<Rightarrow> Session" where
  "cursor_onStderr chunk s = cursor_handler (errorEvent chunk) s"


subsection \<open>Reading the outbox\<close>

text \<open>
  \<open>newEffects s s'\<close> is what a step from \<open>s\<close> to \<open>s'\<close> has added to the outbox, and
  \<open>messagesOf\<close> the texts of the \<open>message\<close> events among some effects.
  \<open>geminiKnownTypes\<close> lists the event types that have a \<open>case\<close> of their own in the
  handler of \<open>runGemini\<close>; \<open>flushingTypes\<close> are those whose case starts with
  \<open>flushAccumulatedMessage()\<close>.
\<close>

definition newEffects :: "Session \<Rightarrow> Session \<Rightarrow> effect list" where
  "newEffects s s' = drop (length (outbox s)) (outbox s')"

fun messagesOf :: "effect list \<Rightarrow> string list" where
  "messagesOf [] = []"
| "messagesOf (SendAgentMessage (Message text) n # es) = text # messagesOf es"
| "messagesOf (e # es) = messagesOf es"

definition textTypes :: "string list" where
  "textTypes = [''message'', ''assistant'', ''assistant_message'']"

definition flushingTypes :: "string list" where
  "flushingTypes =
     [''tool_use'', ''tool_call'', ''function_call'', ''done'', ''complete'', ''finished'', ''result'']"

definition geminiKnownTypes :: "string list" where
  "geminiKnownTypes =
     [''message'', ''assistant'', ''assistant_message'', ''tool_use'', ''tool_call'',
      ''function_call'', ''tool_result'', ''function_result'', ''thinking'', ''reasoning'',
      ''error'', ''system'', ''system_message'', ''done'', ''complete'', ''finished'',
      ''result'', ''progress'', ''status'', ''log'', ''debug'', ''info'']"

definition messageText :: "RawEvent \<Rightarrow> string" where
  "messageText msg = or_default (firstStr msg [''message'', ''text'', ''content'']) []"

definition errorText :: "RawEvent \<Rightarrow> string" where
  "errorText msg = or_default (firstStr msg [''message'', ''error'']) []"


section \<open>The session loop\<close>

text \<open>
  The body of the \<open>while\<close> loop of \<open>runGemini\<close> and of \<open>runCursor\<close>, which are the
  same text but for the backend they drive and for how they find out whether the
  terminal is interactive. One step runs the loop from one suspension to the next.
\<close>

definition titleInstruction :: string where
  "titleInstruction = ''Based on this message, call functions.vibe__change_title to change chat session title that would represent the current task. If chat idea would change dramatically - call this function again to update the title.''"

definition loopIsInteractive :: "backend \<Rightarrow> Env \<Rightarrow> bool" where
  "loopIsInteractive b env =
     (case b of
        Gemini \<Rightarrow> stdinIsTTY env \<and> stdoutIsTTY env \<and> forceInteractive env
      | Cursor \<Rightarrow> stdinIsTTY env \<and> stdoutIsTTY env)"

definition vibeMcpServers :: "Env \<Rightarrow> (string \<times> jsval) list" where
  "vibeMcpServers env =
     [(''vibe'', JObj [(''command'', JStr (bridgeCommand env)),
                       (''args'', JArr [JStr ''--url'', JStr (vibeServerUrl env)])])]"

text \<open>
  \<open>permissionHandler.reset()\<close>, on the handler that the loop of the backend created.
\<close>

definition resetPermissionHandler :: "backend \<Rightarrow> nat \<Rightarrow> Session \<Rightarrow> Session" where
  "resetPermissionHandler b now s =
     (case b of
        Gemini \<Rightarrow> s\<lparr>permissionHandler := reset (permissionHandler s)\<rparr>
      | Cursor \<Rightarrow> s\<lparr>cursorPermissionHandler := cursor_reset now (cursorPermissionHandler s)\<rparr>)"

text \<open>The \<open>finally\<close> block and the \<open>catch\<close> block of the loop body.\<close>

definition finallyBlock :: "backend \<Rightarrow> Env \<Rightarrow> Session \<Rightarrow> Session" where
  "finallyBlock b env s = setThinking False (resetPermissionHandler b (dateNow env) s)"

definition catchBlock :: "JsError \<Rightarrow> Session \<Rightarrow> Session" where
  "catchBlock e s =
     (if errName e = ''AbortError''
      then (emit (SendSessionEvent (EventMessage ''Aborted by user'')) s)
             \<lparr>wasCreated := False, currentModeHash := None\<rparr>
      else emit (SendSessionEvent (EventMessage ''Process exited unexpectedly'')) s)"

text \<open>The branch taken when the mode of the drained batch differs from the session's.\<close>

definition modeChanged :: "Batch \<Rightarrow> Session \<Rightarrow> bool" where
  "modeChanged batch s =
     (wasCreated s \<and> truthy_str (currentModeHash s) \<and> currentModeHash s \<noteq> Some (hash batch))"

definition restartBranch :: "backend \<Rightarrow> Env \<Rightarrow> Session \<Rightarrow> Session" where
  "restartBranch b env s =
     setThinking False
       (resetPermissionHandler b (dateNow env)
          (s\<lparr>client := clearSession (client s), wasCreated := False, currentModeHash := None\<rparr>))"

text \<open>The rest of the body: the batch goes to the backend.\<close>

definition processBatch :: "backend \<Rightarrow> Env \<Rightarrow> Batch \<Rightarrow> Session \<Rightarrow> Session" where
  "processBatch b env batch s0 =
     (let s = s0\<lparr>currentModeHash := Some (hash batch)\<rparr>;
          sig = Some (abortController s)
      in if \<not> wasCreated s then
           (let isInteractive = loopIsInteractive b env;
                promptText = (if isFirst s
                              then message batch @ [CHR 0x0A, CHR 0x0A] @ trimIdent env titleInstruction
                              else message batch);
                startConfig = \<lparr>prompt = (if isInteractive then None else Some promptText),
                               model = (if truthy_str (modeModel (mode batch))
                                        then modeModel (mode batch) else None),
                               cwd = Some (processCwd env),
                               mcpServers = Some (vibeMcpServers env),
                               outputFormat = None\<rparr>;
                (r, c) = startSession b env startConfig sig (client s)
            in case r of
                 Inl e \<Rightarrow> finallyBlock b env (catchBlock e (s\<lparr>client := c\<rparr>))
               | Inr response \<Rightarrow>
                   (let s1 = s\<lparr>client := c, wasCreated := True, isFirst := False\<rparr>
                    in if isInteractive \<and> hasActiveSession c
                       then s1\<lparr>awaitingExit := True\<rparr>
                       else finallyBlock b env s1))
         else
           (let (r, c) = continueSession b env (message batch) sig (client s)
            in case r of
                 Inl e \<Rightarrow> finallyBlock b env (catchBlock e (s\<lparr>client := c\<rparr>))
               | Inr response \<Rightarrow> finallyBlock b env (s\<lparr>client := c\<rparr>)))"

text \<open>The cleanup in the \<open>finally\<close> block around the loop.\<close>

definition disconnect :: "Client \<Rightarrow> Client" where
  "disconnect c = (clearSession c)\<lparr>connected := False\<rparr>"

definition finalCleanup :: "Session \<Rightarrow> Session" where
  "finalCleanup s =
     (let s1 = emit SessionClose (emit SessionFlush (emit SessionDeath s));
          s2 = s1\<lparr>client := disconnect (client s1)\<rparr>
      in (emit StopCaffeinate (emit VibeServerStop s2))\<lparr>exited := True\<rparr>)"

text \<open>
  What the loop does next: it is suspended at an \<open>await\<close> (\<open>Waiting\<close>), it goes on to
  the next iteration (\<open>Continue\<close>), or it has left the loop (\<open>Break\<close>).
\<close>

datatype loop_status = Waiting | Continue | Break

definition isAborted :: "nat \<Rightarrow> Session \<Rightarrow> bool" where
  "isAborted controller s = (controller \<in> set (abortedControllers s))"

definition loopStep :: "backend \<Rightarrow> Env \<Rightarrow> Session \<Rightarrow> loop_status \<times> Session" where
  "loopStep b env s =
     (if exited s then (Break, s)
      else if awaitingExit s then
        (if \<not> hasActiveSession (client s) \<or>
            (case currentAbortSignal (client s) of None \<Rightarrow> False | Some g \<Rightarrow> isAborted g s)
         then (Continue, finallyBlock b env (s\<lparr>awaitingExit := False\<rparr>))
         else (Waiting, s))
      else if shouldExit s then (Break, finalCleanup s)
      else
        (let token = (case waitToken s of None \<Rightarrow> abortController s | Some g \<Rightarrow> g)
         in case waitForMessagesAndGetAsString (isAborted token s) (messageQueue s) of
              Pending \<Rightarrow> (Waiting, s\<lparr>waitToken := Some token\<rparr>)
            | Null \<Rightarrow>
                (let s1 = s\<lparr>waitToken := None\<rparr>
                 in if isAborted (abortController s1) s1 \<and> \<not> shouldExit s1
                    then (Continue, s1)
                    else (Break, finalCleanup s1))
            | Got batch q \<Rightarrow>
                (let s1 = s\<lparr>waitToken := None, messageQueue := q\<rparr>
                 in if modeChanged batch s1
                    then (Continue, restartBranch b env s1)
                    else (let s2 = processBatch b env batch s1
                          in (if awaitingExit s2 then Waiting else Continue, s2)))))"

text \<open>
  \<open>handleAbort\<close>, the handler of the \<open>abort\<close> RPC; \<open>now\<close> is what \<open>Date.now()\<close> returns.
  What the runtime does to a child process whose signal is aborted reaches the session
  as events of that process.
\<close>

definition handleAbort :: "backend \<Rightarrow> nat \<Rightarrow> Session \<Rightarrow> Session" where
  "handleAbort b now s =
     (resetPermissionHandler b now
        (s\<lparr>abortedControllers := abortedControllers s @ [abortController s],
           messageQueue := queueReset (messageQueue s)\<rparr>))
       \<lparr>abortController := Suc (abortController s)\<rparr>"

text \<open>
  What can happen to a session, one thing at a time: a user message arrives, the loop
  runs one step, a line reader delivers a message of the backend, a child process writes
  to its standard error, a child process ends, the remote client aborts or answers a
  permission request, a tool asks for permission. \<open>BackendMessage r msg\<close> is a line on
  the reader \<open>r\<close>; a reader that has been closed delivers nothing. The parameters of
  \<open>PermissionRpc\<close> are the time, the identifier of the request (which the Gemini handler
  reads from \<open>requestId\<close> and the Cursor handler from \<open>id\<close>), \<open>approved\<close>, \<open>decision\<close>
  and \<open>reason\<close>; the times are what \<open>Date.now()\<close> returns.
\<close>

datatype action =
    UserSends UserMessage
  | LoopStep Env
  | BackendMessage nat RawEvent
  | BackendStderr string
  | ProcessExit
  | AbortRpc nat
  | PermissionRpc nat string bool "string option" "string option"
  | ToolPermissionRequest nat string string jsval

definition doneEvent :: RawEvent where
  "doneEvent =
     \<lparr>strs = [''type'' \<mapsto> ''done''], objs = Map.empty, delta = False,
      payloads = Map.empty, stats = None\<rparr>"

definition cursor_handleMessage :: "RawEvent \<Rightarrow> Session \<Rightarrow> Session" where
  "cursor_handleMessage msg s =
     cursor_handler msg (s\<lparr>client := updateIdentifiersFromMessage msg (client s)\<rparr>)"

fun applyAction :: "backend \<Rightarrow> action \<Rightarrow> Session \<Rightarrow> Session" where
  "applyAction b (UserSends um) s = onUserMessage um s"
| "applyAction b (LoopStep env) s = snd (loopStep b env s)"
| "applyAction Gemini (BackendMessage r msg) s =
     (if r \<in> set (openReaders (client s)) then gemini_handleMessage msg s else s)"
| "applyAction Cursor (BackendMessage r msg) s =
     (if r \<in> set (openReaders (client s)) then cursor_handleMessage msg s else s)"
| "applyAction Gemini (BackendStderr chunk) s = gemini_onStderr chunk s"
| "applyAction Cursor (BackendStderr chunk) s = cursor_onStderr chunk s"
| "applyAction Gemini ProcessExit s = s\<lparr>client := onProcessExit (client s)\<rparr>"
| "applyAction Cursor ProcessExit s = cursor_handler doneEvent (s\<lparr>client := onProcessExit (client s)\<rparr>)"
| "applyAction b (AbortRpc now) s = handleAbort b now s"
| "applyAction Gemini (PermissionRpc now requestId isApproved responseDecision why) s =
     s\<lparr>permissionHandler := snd (permissionRpc requestId isApproved why (permissionHandler s))\<rparr>"
| "applyAction Cursor (PermissionRpc now responseId isApproved responseDecision why) s =
     s\<lparr>cursorPermissionHandler :=
         cursor_permissionRpc now responseId isApproved responseDecision (cursorPermissionHandler s)\<rparr>"
| "applyAction Gemini (ToolPermissionRequest now toolCallId name inp) s =
     s\<lparr>permissionHandler := snd (handleToolCall now toolCallId name inp (permissionHandler s))\<rparr>"
| "applyAction Cursor (ToolPermissionRequest now toolCallId name inp) s =
     s\<lparr>cursorPermissionHandler :=
         snd (cursor_handleToolCall now toolCallId name inp (cursorPermissionHandler s))\<rparr>"

definition run :: "backend \<Rightarrow> action list \<Rightarrow> Session \<Rightarrow> Session" where
  "run b actions s = fold (applyAction b) actions s"


text \<open>
  The call of the backend that the loop body makes for a batch, by itself: its result
  is what the \<open>try\<close> block continues with or what the \<open>catch\<close> block receives.
\<close>

definition backendCall ::
  "backend \<Rightarrow> Env \<Rightarrow> Batch \<Rightarrow> Session \<Rightarrow> (JsError + ToolResponse) \<times> Client" where
  "backendCall b env batch s =
     (if \<not> wasCreated s
      then startSession b env
             \<lparr>prompt = (if loopIsInteractive b env then None
                         else Some (if isFirst s
                                    then message batch @ [CHR 0x0A, CHR 0x0A] @ trimIdent env titleInstruction
                                    else message batch)),
              model = (if truthy_str (modeModel (mode batch)) then modeModel (mode batch) else None),
              cwd = Some (processCwd env),
              mcpServers = Some (vibeMcpServers env),
              outputFormat = None\<rparr>
             (Some (abortController s)) (client s)
      else continueSession b env (message batch) (Some (abortController s)) (client s))"


section \<open>Between a restart and the next start\<close>

text \<open>
  The identifiers of the requests that are pending in the permission handler of the
  session's backend.
\<close>

definition pendingIds :: "backend \<Rightarrow> Session \<Rightarrow> string list" where
  "pendingIds b s =
     (case b of
        Gemini \<Rightarrow> map fst (pendingRequests (permissionHandler s))
      | Cursor \<Rightarrow> map fst (cursorPendingRequests (cursorPermissionHandler s)))"



text \<open>
  What the restart branch establishes: nothing is pending, no identifier is latched and
  no session is created.
\<close>

definition restarted :: "backend \<Rightarrow> Session \<Rightarrow> bool" where
  "restarted b s \<longleftrightarrow>
     pendingIds b s = [] \<and> sessionId (client s) = None \<and> conversationId (client s) = None \<and>
     \<not> wasCreated s"

section \<open>Example surroundings\<close>

text \<open>
  Concrete surroundings for evaluating the model: a machine where the Gemini CLI is
  installed and the terminal is not interactive, one where it is not installed, and a
  hash function for modes.
\<close>

definition exampleEnv :: Env where
  "exampleEnv =
     \<lparr>cliPath = Some ''/usr/bin/gemini'', spawnThrows = None, stdinWriteThrows = False,
      processCwd = ''/work'', interactiveVar = None, stdinIsTTY = False, stdoutIsTTY = False,
      win32 = False, jsonStringify = (\<lambda>v. ''{}''), trimIdent = (\<lambda>t. t),
      bridgeCommand = ''/lib/bin/vibe-mcp.mjs'', vibeServerUrl = ''http://127.0.0.1:7'',
      dateNow = 1000\<rparr>"

definition noCliEnv :: Env where
  "noCliEnv = exampleEnv\<lparr>cliPath := None\<rparr>"

definition exampleHasher :: "EnhancedMode \<Rightarrow> string" where
  "exampleHasher m =
     permissionMode m @ ''/'' @ (case modeModel m of None \<Rightarrow> [] | Some name \<Rightarrow> name)"

definition userMessage :: "string \<Rightarrow> string \<Rightarrow> UserMessage" where
  "userMessage text pm =
     \<lparr>contentText = text, metaPermissionMode = Some pm, metaModel = None\<rparr>"

definition textEvent :: "string \<Rightarrow> string \<Rightarrow> bool \<Rightarrow> RawEvent" where
  "textEvent ty text isDelta =
     \<lparr>strs = [''type'' \<mapsto> ty, ''message'' \<mapsto> text], objs = Map.empty, delta = isDelta,
      payloads = Map.empty, stats = None\<rparr>"

text \<open>
  A message with the given string properties and the given nested objects, and no type.
\<close>

definition idEvent :: "(string \<times> string) list \<Rightarrow> (string \<times> (string \<times> string) list) list \<Rightarrow> RawEvent" where
  "idEvent props nested =
     \<lparr>strs = map_of props, objs = map_of (map (\<lambda>(k, ob). (k, map_of ob)) nested),
      delta = False, payloads = Map.empty, stats = None\<rparr>"

text \<open>The text \<open>Hello\<close> streamed as two deltas.\<close>

definition helloDeltas :: "RawEvent list" where
  "helloDeltas = [textEvent ''message'' ''Hel'' True, textEvent ''message'' ''lo'' True]"

text \<open>
  A Gemini session in which a first message in mode \<open>default\<close> has started the backend
  and a second message, in mode \<open>yolo\<close>, is queued.
\<close>

definition modeChangeState :: Session where
  "modeChangeState =
     run Gemini
       [UserSends (userMessage ''first'' ''default''), LoopStep exampleEnv,
        UserSends (userMessage ''second'' ''yolo'')]
       (newSession exampleHasher [CHR 0x0A])"

text \<open>
  A Gemini session on a machine where the CLI is not installed, with one message queued.
\<close>

definition failingStartState :: Session where
  "failingStartState =
     run Gemini [UserSends (userMessage ''first'' ''default'')]
       (newSession exampleHasher [CHR 0x0A])"







section \<open>Verification\<close>

subsection \<open>The permission handler keeps its invariant\<close>

lemma list_all_pairD:
  "list_all (\<lambda>(k, v). P k v) al \<Longrightarrow> (k, v) \<in> set al \<Longrightarrow> P k v"
  by (auto simp: list_all_iff)

lemma list_all_pairI:
  "(\<And>k v. (k, v) \<in> set al \<Longrightarrow> P k v) \<Longrightarrow> list_all (\<lambda>(k, v). P k v) al"
  by (auto simp: list_all_iff)

lemma broker_inv_new: "broker_inv newPermissionHandler"
  by (simp add: broker_inv_def newPermissionHandler_def)

lemma promise_update_set:
  "set (map (promise \<circ> snd) (AList.update k v al)) \<subseteq> insert (promise v) (set (map (promise \<circ> snd) al))"
  by (induction al) auto

lemma distinct_promise_update:
  "distinct (map (promise \<circ> snd) al) \<Longrightarrow> promise v \<notin> set (map (promise \<circ> snd) al) \<Longrightarrow>
   distinct (map (promise \<circ> snd) (AList.update k v al))"
proof (induction al)
  case Nil
  then show ?case by simp
next
  case (Cons a al)
  obtain k' v' where a: "a = (k', v')" by (cases a)
  show ?case
  proof (cases "k' = k")
    case True
    with Cons.prems a show ?thesis by simp
  next
    case False
    have "promise v' \<notin> set (map (promise \<circ> snd) (AList.update k v al))"
      using promise_update_set[of k v al] Cons.prems a by auto
    with False Cons a show ?thesis by simp
  qed
qed

lemma list_all_update:
  "list_all P al \<Longrightarrow> P (k, v) \<Longrightarrow> list_all P (AList.update k v al)"
  by (induction al) auto

lemma list_all_delete:
  "list_all P al \<Longrightarrow> list_all P (AList.delete k al)"
  by (induction al) auto

lemma distinct_promise_delete:
  "distinct (map (promise \<circ> snd) al) \<Longrightarrow> distinct (map (promise \<circ> snd) (AList.delete k al))"
  by (induction al) (auto simp: AList.delete_eq)

lemma broker_inv_handleToolCall:
  assumes "broker_inv h"
  shows "broker_inv (snd (handleToolCall now k name inp h))"
proof -
  let ?v = "\<lparr>promise = nextPromise h, toolName = name, input = inp\<rparr>"
  from assms have d: "distinct (map (promise \<circ> snd) (pendingRequests h))"
    and la: "list_all (\<lambda>(k, pending). promise pending < nextPromise h \<and>
                 map_of (settled h) (promise pending) = None) (pendingRequests h)"
    and ls: "list_all (\<lambda>(p, s). p < nextPromise h) (settled h)"
    and dk: "distinct (map fst (pendingRequests h))"
    and dsd: "distinct (map fst (settled h))"
    by (simp_all add: broker_inv_def)
  have fresh: "promise ?v \<notin> set (map (promise \<circ> snd) (pendingRequests h))"
    using la by (auto simp: list_all_iff)
  have unsettled: "map_of (settled h) (nextPromise h) = None"
    using ls by (auto simp: list_all_iff map_of_eq_None_iff)
  have la': "list_all (\<lambda>(k, pending). promise pending < Suc (nextPromise h) \<and>
                 map_of (settled h) (promise pending) = None) (pendingRequests h)"
    using la by (auto simp: list_all_iff)
  have ls': "list_all (\<lambda>(p, s). p < Suc (nextPromise h)) (settled h)"
    using ls by (auto simp: list_all_iff)
  show ?thesis
    unfolding broker_inv_def handleToolCall_def
    using distinct_promise_update[OF d fresh, of k] dk dsd ls'
      list_all_update[OF la', of k ?v] unsettled
    by (simp add: distinct_update)
qed

lemma broker_inv_permissionRpc:
  assumes "broker_inv h"
  shows "broker_inv (snd (permissionRpc k a r h))"
proof (cases "map_of (pendingRequests h) k")
  case None
  with assms show ?thesis by (simp add: permissionRpc_def broker_inv_def)
next
  case (Some pending)
  from assms have d: "distinct (map (promise \<circ> snd) (pendingRequests h))"
    and la: "list_all (\<lambda>(k, pending). promise pending < nextPromise h \<and>
                 map_of (settled h) (promise pending) = None) (pendingRequests h)"
    and ls: "list_all (\<lambda>(p, s). p < nextPromise h) (settled h)"
    and dk: "distinct (map fst (pendingRequests h))"
    and dsd: "distinct (map fst (settled h))"
    by (simp_all add: broker_inv_def)
  have mem: "(k, pending) \<in> set (pendingRequests h)" using Some by (rule map_of_SomeD)
  have p1: "promise pending < nextPromise h" and p2: "map_of (settled h) (promise pending) = None"
    using la mem by (auto simp: list_all_iff)
  have notin: "promise pending \<notin> fst ` set (settled h)"
    using p2 by (simp add: map_of_eq_None_iff)
  have rest: "list_all (\<lambda>(k', q). promise q < nextPromise h \<and>
        map_of (settled h @ [(promise pending, s)]) (promise q) = None) (AList.delete k (pendingRequests h))" for s
  proof -
    have "\<And>k' q. (k', q) \<in> set (AList.delete k (pendingRequests h)) \<Longrightarrow>
        promise q < nextPromise h \<and> map_of (settled h @ [(promise pending, s)]) (promise q) = None"
    proof -
      fix k' q assume m: "(k', q) \<in> set (AList.delete k (pendingRequests h))"
      then have m': "(k', q) \<in> set (pendingRequests h)" and ne: "k' \<noteq> k"
        by (auto simp: AList.delete_eq)
      have "promise q \<noteq> promise pending"
      proof
        assume e: "promise q = promise pending"
        have "inj_on (promise \<circ> snd) (set (pendingRequests h))"
          using d by (simp add: distinct_map)
        from inj_onD[OF this, of "(k', q)" "(k, pending)"] m' mem e
        have "(k', q) = (k, pending)" by simp
        with ne show False by simp
      qed
      moreover have "promise q < nextPromise h" "map_of (settled h) (promise q) = None"
        using la m' by (auto simp: list_all_iff)
      ultimately show "promise q < nextPromise h \<and> map_of (settled h @ [(promise pending, s)]) (promise q) = None"
        by (simp add: map_of_append map_add_def)
    qed
    then show ?thesis unfolding list_all_iff by blast
  qed
  show ?thesis
    unfolding broker_inv_def permissionRpc_def
    using Some d dk dsd ls p1 p2 notin rest
    by (simp add: settle_promise_def distinct_promise_delete distinct_delete)
qed


lemma fold_settle_promise:
  "distinct (map (promise \<circ> snd) al) \<Longrightarrow>
   list_all (\<lambda>(k, pending). map_of sofar (promise pending) = None) al \<Longrightarrow>
   fold (\<lambda>(requestId, pending). settle_promise (promise pending) s) al sofar =
     sofar @ map (\<lambda>(requestId, pending). (promise pending, s)) al"
proof (induction al arbitrary: sofar)
  case Nil
  then show ?case by simp
next
  case (Cons a al)
  obtain k v where a: "a = (k, v)" by (cases a)
  from Cons.prems a have un: "map_of sofar (promise v) = None"
    and d: "distinct (map (promise \<circ> snd) al)"
    and nin: "promise v \<notin> set (map (promise \<circ> snd) al)"
    and la: "list_all (\<lambda>(k, pending). map_of sofar (promise pending) = None) al"
    by (simp_all add: comp_def)
  have la': "list_all (\<lambda>(k, pending). map_of (sofar @ [(promise v, s)]) (promise pending) = None) al"
  proof (rule list_all_pairI)
    fix k' q assume m: "(k', q) \<in> set al"
    have "map_of sofar (promise q) = None" using list_all_pairD[OF la m] .
    moreover have "promise q \<noteq> promise v" using nin m by force
    ultimately show "map_of (sofar @ [(promise v, s)]) (promise q) = None"
      by (simp add: map_add_def)
  qed
  show ?case
    using Cons.IH[OF d la'] un a by (simp add: settle_promise_def)
qed

lemma broker_inv_reset:
  assumes "broker_inv h"
  shows "broker_inv (reset h)"
proof -
  from assms have d: "distinct (map (promise \<circ> snd) (pendingRequests h))"
    and la: "list_all (\<lambda>(k, pending). promise pending < nextPromise h \<and>
                 map_of (settled h) (promise pending) = None) (pendingRequests h)"
    and ls: "list_all (\<lambda>(p, s). p < nextPromise h) (settled h)"
    and dsd: "distinct (map fst (settled h))"
    by (simp_all add: broker_inv_def)
  have la2: "list_all (\<lambda>(k, pending). map_of (settled h) (promise pending) = None) (pendingRequests h)"
    using la by (auto simp: list_all_iff)
  have m: "fst \<circ> (\<lambda>(requestId :: string, pending). (promise pending, s)) = promise \<circ> snd"
    for s :: settlement
    by (auto simp: fun_eq_iff)
  have disj: "set (map fst (settled h)) \<inter> set (map (promise \<circ> snd) (pendingRequests h)) = {}"
  proof -
    have "(promise (snd x), s) \<notin> set (settled h)" if "x \<in> set (pendingRequests h)" for x s
      using list_all_pairD[OF la, of "fst x" "snd x"] that by (auto dest: weak_map_of_SomeI)
    then show ?thesis by auto
  qed
  have lt: "list_all (\<lambda>(p, s). p < nextPromise h)
      (map (\<lambda>(requestId, pending). (promise pending, Rejected ''Permission handler reset'')) (pendingRequests h))"
    using la by (auto simp: list_all_iff)
  show ?thesis
    unfolding broker_inv_def reset_def
    using fold_settle_promise[OF d la2] ls dsd d disj lt
    by (simp add: m del: set_map)
qed

subsection \<open>Claims about the permission handler\<close>

text \<open>
  Claim C3, as amended. \<open>reset()\<close> takes no reason. On a handler with N pending entries
  it rejects each of the N promises, none of which was settled before, with the fixed
  error \<open>Permission handler reset\<close>, in the order of the map, settles nothing else, and
  leaves the map of pending requests empty.
\<close>

theorem reset_rejects_all_and_clears:
  assumes "broker_inv h"
  shows "pendingRequests (reset h) = [] \<and>
         settled (reset h) = settled h @
           map (\<lambda>(requestId, pending). (promise pending, Rejected ''Permission handler reset''))
             (pendingRequests h) \<and>
         list_all (\<lambda>(requestId, pending).
             map_of (settled h) (promise pending) = None \<and>
             map_of (settled (reset h)) (promise pending) =
               Some (Rejected ''Permission handler reset'')) (pendingRequests h)"
proof -
  from assms have d: "distinct (map (promise \<circ> snd) (pendingRequests h))"
    and la: "list_all (\<lambda>(k, pending). promise pending < nextPromise h \<and>
                 map_of (settled h) (promise pending) = None) (pendingRequests h)"
    by (simp_all add: broker_inv_def)
  have la2: "list_all (\<lambda>(k, pending). map_of (settled h) (promise pending) = None) (pendingRequests h)"
    using la by (auto simp: list_all_iff)
  have eq: "settled (reset h) = settled h @
           map (\<lambda>(requestId, pending). (promise pending, Rejected ''Permission handler reset''))
             (pendingRequests h)"
    using fold_settle_promise[OF d la2] by (simp add: reset_def)
  have look: "map_of (settled (reset h)) (promise pending) = Some (Rejected ''Permission handler reset'')"
    if "(k, pending) \<in> set (pendingRequests h)" for k pending
  proof -
    have un: "map_of (settled h) (promise pending) = None"
      using la2 that by (auto simp: list_all_iff)
    have "(promise pending, Rejected ''Permission handler reset'') \<in>
        set (map (\<lambda>(requestId, pending). (promise pending, Rejected ''Permission handler reset'')) (pendingRequests h))"
      using that by force
    moreover have "distinct (map fst (map (\<lambda>(requestId, pending). (promise pending, Rejected ''Permission handler reset'')) (pendingRequests h)))"
      using d by (simp add: comp_def case_prod_unfold)
    ultimately have "map_of (map (\<lambda>(requestId, pending). (promise pending, Rejected ''Permission handler reset'')) (pendingRequests h)) (promise pending) = Some (Rejected ''Permission handler reset'')"
      by (rule map_of_is_SomeI[rotated])
    then show ?thesis using un by (simp add: eq map_of_append map_add_def)
  qed
  have "list_all (\<lambda>(requestId, pending).
             map_of (settled h) (promise pending) = None \<and>
             map_of (settled (reset h)) (promise pending) =
               Some (Rejected ''Permission handler reset'')) (pendingRequests h)"
    unfolding list_all_iff using look la2 by (auto simp: list_all_iff)
  then show ?thesis using eq by (simp add: reset_def)
qed


theorem reset_rejects_all_and_clears_witness:
  "broker_inv (snd (handleToolCall 2 ''t2'' ''Write'' JNull
       (snd (handleToolCall 1 ''t1'' ''Bash'' JNull newPermissionHandler)))) \<and>
   pendingRequests (reset (snd (handleToolCall 2 ''t2'' ''Write'' JNull
       (snd (handleToolCall 1 ''t1'' ''Bash'' JNull newPermissionHandler))))) = [] \<and>
   settled (reset (snd (handleToolCall 2 ''t2'' ''Write'' JNull
       (snd (handleToolCall 1 ''t1'' ''Bash'' JNull newPermissionHandler))))) =
     [(0, Rejected ''Permission handler reset''), (1, Rejected ''Permission handler reset'')]"
proof -
  have inv: "broker_inv (snd (handleToolCall 2 ''t2'' ''Write'' JNull
       (snd (handleToolCall 1 ''t1'' ''Bash'' JNull newPermissionHandler))))"
    by (intro broker_inv_handleToolCall broker_inv_new)
  show ?thesis
    using inv reset_rejects_all_and_clears[OF inv]
    by (simp add: handleToolCall_def newPermissionHandler_def)
qed

text \<open>
  Claim C3 as stated fails: the settlement carries no reason supplied by the caller. After
  one request and \<open>reset()\<close>, as the restart path of the session loop calls it, the
  promise is rejected with \<open>Permission handler reset\<close>, which is neither a rejection nor
  a denial carrying \<open>mode-changed\<close>.
\<close>

theorem reset_reason_counterexample:
  "settled (reset (snd (handleToolCall 1 ''t1'' ''Bash'' JNull newPermissionHandler))) =
     [(0, Rejected ''Permission handler reset'')] \<and>
   Rejected ''Permission handler reset'' \<noteq> Rejected ''mode-changed'' \<and>
   Rejected ''Permission handler reset'' \<noteq>
     Resolved \<lparr>decision = denied, reason = Some ''mode-changed''\<rparr>"
  by (simp add: reset_def handleToolCall_def newPermissionHandler_def settle_promise_def)

text \<open>
  Claim C2, as amended. A call of \<open>handleToolCall\<close> whose \<open>toolCallId\<close> already has a
  pending entry does not fail: it returns a new promise and stores the new request under
  that key, in the place of the old entry. The keys of the map and every other entry are
  unchanged and nothing is settled; the promise of the replaced entry, still unsettled,
  is held by no entry any more.
\<close>

theorem handleToolCall_duplicate_replaces:
  assumes inv: "broker_inv h"
    and present: "map_of (pendingRequests h) toolCallId = Some old"
  shows "fst (handleToolCall now toolCallId name inp h) = nextPromise h \<and>
         map_of (pendingRequests (snd (handleToolCall now toolCallId name inp h))) toolCallId =
           Some \<lparr>promise = nextPromise h, toolName = name, input = inp\<rparr> \<and>
         map fst (pendingRequests (snd (handleToolCall now toolCallId name inp h))) =
           map fst (pendingRequests h) \<and>
         (\<forall>k. k \<noteq> toolCallId \<longrightarrow>
            map_of (pendingRequests (snd (handleToolCall now toolCallId name inp h))) k =
              map_of (pendingRequests h) k) \<and>
         settled (snd (handleToolCall now toolCallId name inp h)) = settled h \<and>
         map_of (settled h) (promise old) = None \<and>
         promise old \<notin> set (map (promise \<circ> snd)
            (pendingRequests (snd (handleToolCall now toolCallId name inp h))))"
proof -
  let ?v = "\<lparr>promise = nextPromise h, toolName = name, input = inp\<rparr>"
  from inv have d: "distinct (map (promise \<circ> snd) (pendingRequests h))"
    and la: "list_all (\<lambda>(k, pending). promise pending < nextPromise h \<and>
                 map_of (settled h) (promise pending) = None) (pendingRequests h)"
    and dk: "distinct (map fst (pendingRequests h))"
    by (simp_all add: broker_inv_def)
  have mem: "(toolCallId, old) \<in> set (pendingRequests h)" using present by (rule map_of_SomeD)
  have old: "promise old < nextPromise h" "map_of (settled h) (promise old) = None"
    using list_all_pairD[OF la mem] by simp_all
  have keys: "map fst (AList.update toolCallId ?v (pendingRequests h)) = map fst (pendingRequests h)"
    using present by (simp add: update_keys domI map_of_eq_None_iff[symmetric] dom_map_of_conv_image_fst[symmetric])
  have gone: "promise old \<notin> set (map (promise \<circ> snd) (AList.update toolCallId ?v al))"
    if "distinct (map (promise \<circ> snd) al)" "map_of al toolCallId = Some old"
       "promise old \<noteq> nextPromise h" for al :: "(string \<times> PendingRequest) list"
    using that
  proof (induction al)
    case Nil
    then show ?case by simp
  next
    case (Cons a al)
    obtain k' v' where a: "a = (k', v')" by (cases a)
    show ?case
    proof (cases "k' = toolCallId")
      case True
      from Cons.prems a True have o: "old = v'" by simp
      from Cons.prems a have "promise v' \<notin> (promise \<circ> snd) ` set al" by simp
      with o True a Cons.prems(3) show ?thesis by simp
    next
      case False
      have "(toolCallId, old) \<in> set al"
        using Cons.prems a False by (auto dest: map_of_SomeD)
      then have "promise old \<in> (promise \<circ> snd) ` set al" by force
      moreover have "promise v' \<notin> (promise \<circ> snd) ` set al"
        using Cons.prems(1) a by simp
      ultimately have "promise old \<noteq> promise v'" by metis
      moreover have "promise old \<notin> set (map (promise \<circ> snd) (AList.update toolCallId ?v al))"
        using Cons.IH Cons.prems a False by simp
      ultimately show ?thesis using a False by simp
    qed
  qed
  show ?thesis
    using keys old gone[OF d present] 
    by (simp add: handleToolCall_def update_conv')
qed


theorem handleToolCall_duplicate_replaces_witness:
  "broker_inv (snd (handleToolCall 1 ''t1'' ''Bash'' (JStr ''ls'') newPermissionHandler)) \<and>
   map_of (pendingRequests (snd (handleToolCall 1 ''t1'' ''Bash'' (JStr ''ls'') newPermissionHandler)))
     ''t1'' = Some \<lparr>promise = 0, toolName = ''Bash'', input = JStr ''ls''\<rparr> \<and>
   fst (handleToolCall 2 ''t1'' ''Write'' (JStr ''x'')
     (snd (handleToolCall 1 ''t1'' ''Bash'' (JStr ''ls'') newPermissionHandler))) = 1 \<and>
   map_of (pendingRequests (snd (handleToolCall 2 ''t1'' ''Write'' (JStr ''x'')
     (snd (handleToolCall 1 ''t1'' ''Bash'' (JStr ''ls'') newPermissionHandler))))) ''t1'' =
     Some \<lparr>promise = 1, toolName = ''Write'', input = JStr ''x''\<rparr>"
proof -
  have inv: "broker_inv (snd (handleToolCall 1 ''t1'' ''Bash'' (JStr ''ls'') newPermissionHandler))"
    by (intro broker_inv_handleToolCall broker_inv_new)
  have present: "map_of (pendingRequests (snd (handleToolCall 1 ''t1'' ''Bash'' (JStr ''ls'') newPermissionHandler)))
     ''t1'' = Some \<lparr>promise = 0, toolName = ''Bash'', input = JStr ''ls''\<rparr>"
    by (simp add: handleToolCall_def newPermissionHandler_def)
  show ?thesis
    using inv present
      handleToolCall_duplicate_replaces[OF inv present, of 2 "''Write''" "JStr ''x''"]
    by (simp add: handleToolCall_def newPermissionHandler_def)
qed

text \<open>
  Claim C2 as stated fails: a second request under the pending key \<open>t1\<close> is accepted,
  and the pending entry is not left intact. The entry of the first request (promise 0,
  tool \<open>Bash\<close>) is replaced by that of the second (promise 1, tool \<open>Write\<close>); nothing
  is settled by the call, and a later \<open>reset()\<close> settles promise 1 only.
\<close>

theorem duplicate_callId_counterexample:
  "pendingRequests (snd (handleToolCall 1 ''t1'' ''Bash'' (JStr ''ls'') newPermissionHandler)) =
     [(''t1'', \<lparr>promise = 0, toolName = ''Bash'', input = JStr ''ls''\<rparr>)] \<and>
   pendingRequests (snd (handleToolCall 2 ''t1'' ''Write'' (JStr ''x'')
     (snd (handleToolCall 1 ''t1'' ''Bash'' (JStr ''ls'') newPermissionHandler)))) =
     [(''t1'', \<lparr>promise = 1, toolName = ''Write'', input = JStr ''x''\<rparr>)] \<and>
   settled (snd (handleToolCall 2 ''t1'' ''Write'' (JStr ''x'')
     (snd (handleToolCall 1 ''t1'' ''Bash'' (JStr ''ls'') newPermissionHandler)))) = [] \<and>
   settled (reset (snd (handleToolCall 2 ''t1'' ''Write'' (JStr ''x'')
     (snd (handleToolCall 1 ''t1'' ''Bash'' (JStr ''ls'') newPermissionHandler))))) =
     [(1, Rejected ''Permission handler reset'')]"
  by (simp add: handleToolCall_def newPermissionHandler_def reset_def settle_promise_def)

text \<open>
  Claim C4. The \<open>permission\<close> RPC handler, for a \<open>requestId\<close> with no pending entry,
  changes nothing but the debug log, where it records the unknown request. For a
  \<open>requestId\<close> with a pending entry it removes the entry and resolves the entry's
  promise, which was not settled before, with \<open>approved\<close> or \<open>denied\<close> and the given
  reason: the promise then occurs exactly once among the settled ones. A second call for
  the same \<open>requestId\<close> leaves the pending map and the settlements as they are.
\<close>

theorem permission_settles_once:
  assumes inv: "broker_inv h"
  shows "(map_of (pendingRequests h) requestId = None \<longrightarrow>
            permissionRpc requestId isApproved why h =
              (True, h\<lparr>debugLog := debugLog h @
                 [''[Gemini] Permission response for unknown request: '' @ requestId]\<rparr>)) \<and>
         (\<forall>pending. map_of (pendingRequests h) requestId = Some pending \<longrightarrow>
            fst (permissionRpc requestId isApproved why h) = True \<and>
            pendingRequests (snd (permissionRpc requestId isApproved why h)) =
              AList.delete requestId (pendingRequests h) \<and>
            map_of (pendingRequests (snd (permissionRpc requestId isApproved why h))) requestId = None \<and>
            map_of (settled h) (promise pending) = None \<and>
            settled (snd (permissionRpc requestId isApproved why h)) =
              settled h @ [(promise pending,
                Resolved \<lparr>decision = (if isApproved then approved else denied), reason = why\<rparr>)] \<and>
            count_list (map fst (settled (snd (permissionRpc requestId isApproved why h))))
              (promise pending) = 1 \<and>
            pendingRequests (snd (permissionRpc requestId again why'
                (snd (permissionRpc requestId isApproved why h)))) =
              pendingRequests (snd (permissionRpc requestId isApproved why h)) \<and>
            settled (snd (permissionRpc requestId again why'
                (snd (permissionRpc requestId isApproved why h)))) =
              settled (snd (permissionRpc requestId isApproved why h)))"
proof (intro conjI impI allI)
  assume "map_of (pendingRequests h) requestId = None"
  then show "permissionRpc requestId isApproved why h =
              (True, h\<lparr>debugLog := debugLog h @
                 [''[Gemini] Permission response for unknown request: '' @ requestId]\<rparr>)"
    by (simp add: permissionRpc_def)
next
  fix pending
  assume present: "map_of (pendingRequests h) requestId = Some pending"
  let ?h' = "snd (permissionRpc requestId isApproved why h)"
  from inv have la: "list_all (\<lambda>(k, pending). promise pending < nextPromise h \<and>
                 map_of (settled h) (promise pending) = None) (pendingRequests h)"
    by (simp add: broker_inv_def)
  have mem: "(requestId, pending) \<in> set (pendingRequests h)"
    using present by (rule map_of_SomeD)
  show unsettled: "map_of (settled h) (promise pending) = None"
    using list_all_pairD[OF la mem] by simp
  show "fst (permissionRpc requestId isApproved why h) = True"
    using present by (simp add: permissionRpc_def)
  show del: "pendingRequests ?h' = AList.delete requestId (pendingRequests h)"
    using present by (simp add: permissionRpc_def)
  show gone: "map_of (pendingRequests ?h') requestId = None"
    using del by (simp add: delete_conv')
  show app: "settled ?h' = settled h @ [(promise pending,
                Resolved \<lparr>decision = (if isApproved then approved else denied), reason = why\<rparr>)]"
    using present unsettled by (simp add: permissionRpc_def settle_promise_def)
  have "promise pending \<notin> set (map fst (settled h))"
    using unsettled by (simp add: map_of_eq_None_iff)
  then have "count_list (map fst (settled h)) (promise pending) = 0"
    by (simp add: count_list_0_iff)
  then show "count_list (map fst (settled ?h')) (promise pending) = 1"
    by (simp add: app)
  show "pendingRequests (snd (permissionRpc requestId again why' ?h')) = pendingRequests ?h'"
    using gone by (simp add: permissionRpc_def)
  show "settled (snd (permissionRpc requestId again why' ?h')) = settled ?h'"
    using gone by (simp add: permissionRpc_def)
qed

theorem permission_settles_once_witness:
  "broker_inv (snd (handleToolCall 7 ''t1'' ''Bash'' JNull newPermissionHandler)) \<and>
   settled (snd (permissionRpc ''t1'' True None
      (snd (handleToolCall 7 ''t1'' ''Bash'' JNull newPermissionHandler)))) =
     [(0, Resolved \<lparr>decision = approved, reason = None\<rparr>)] \<and>
   pendingRequests (snd (permissionRpc ''t1'' True None
      (snd (handleToolCall 7 ''t1'' ''Bash'' JNull newPermissionHandler)))) = [] \<and>
   settled (snd (permissionRpc ''t1'' False None (snd (permissionRpc ''t1'' True None
      (snd (handleToolCall 7 ''t1'' ''Bash'' JNull newPermissionHandler)))))) =
     [(0, Resolved \<lparr>decision = approved, reason = None\<rparr>)] \<and>
   permissionRpc ''zz'' True None newPermissionHandler =
     (True, newPermissionHandler\<lparr>debugLog :=
        [''[Gemini] Permission response for unknown request: zz'']\<rparr>)"
proof -
  have inv: "broker_inv (snd (handleToolCall 7 ''t1'' ''Bash'' JNull newPermissionHandler))"
    by (intro broker_inv_handleToolCall broker_inv_new)
  have present: "map_of (pendingRequests (snd (handleToolCall 7 ''t1'' ''Bash'' JNull newPermissionHandler)))
     ''t1'' = Some \<lparr>promise = 0, toolName = ''Bash'', input = JNull\<rparr>"
    by (simp add: handleToolCall_def newPermissionHandler_def)
  have absent: "map_of (pendingRequests newPermissionHandler) ''zz'' = None"
    by (simp add: newPermissionHandler_def)
  show ?thesis
    using inv present absent
      permission_settles_once[OF inv, of "''t1''" True None False None]
      permission_settles_once[OF broker_inv_new, of "''zz''" True None]
    by (simp add: handleToolCall_def newPermissionHandler_def)
qed

subsection \<open>Identifier capture\<close>

lemma update_sessionId:
  "sessionId (updateIdentifiersFromMessage m c) =
     (if truthy_str (exposedSessionId m) \<and> \<not> truthy_str (sessionId c)
      then exposedSessionId m else sessionId c)"
  by (auto simp: updateIdentifiersFromMessage_def Let_def)

lemma update_conversationId:
  "conversationId (updateIdentifiersFromMessage m c) =
     (if truthy_str (exposedConversationId m) \<and> \<not> truthy_str (conversationId c)
      then exposedConversationId m else conversationId c)"
  by (auto simp: updateIdentifiersFromMessage_def Let_def)

lemma latched_sessionId_stays:
  "truthy_str (sessionId c) \<Longrightarrow>
   sessionId (fold updateIdentifiersFromMessage msgs c) = sessionId c"
  by (induction msgs arbitrary: c) (simp_all add: update_sessionId)

lemma latched_conversationId_stays:
  "truthy_str (conversationId c) \<Longrightarrow>
   conversationId (fold updateIdentifiersFromMessage msgs c) = conversationId c"
  by (induction msgs arbitrary: c) (simp_all add: update_conversationId)

lemma unexposed_sessionId_stays:
  "list_all (\<lambda>m. \<not> truthy_str (exposedSessionId m)) msgs \<Longrightarrow>
   sessionId (fold updateIdentifiersFromMessage msgs c) = sessionId c"
  by (induction msgs arbitrary: c) (simp_all add: update_sessionId)

lemma unexposed_conversationId_stays:
  "list_all (\<lambda>m. \<not> truthy_str (exposedConversationId m)) msgs \<Longrightarrow>
   conversationId (fold updateIdentifiersFromMessage msgs c) = conversationId c"
  by (induction msgs arbitrary: c) (simp_all add: update_conversationId)

lemma exposedSessionId_keys:
  "exposedSessionId m =
     (if strs m ''sessionId'' \<noteq> None \<and> strs m ''sessionId'' \<noteq> Some []
      then strs m ''sessionId''
      else if strs m ''session_id'' \<noteq> None \<and> strs m ''session_id'' \<noteq> Some []
      then strs m ''session_id''
      else case objs m ''session'' of None \<Rightarrow> None | Some ob \<Rightarrow> ob ''id'')"
  by (auto simp: exposedSessionId_def or_str_def truthy_str_def opt_chain_def
      split: option.splits)

lemma exposedConversationId_keys:
  "exposedConversationId m =
     (if strs m ''conversationId'' \<noteq> None \<and> strs m ''conversationId'' \<noteq> Some []
      then strs m ''conversationId''
      else if strs m ''conversation_id'' \<noteq> None \<and> strs m ''conversation_id'' \<noteq> Some []
      then strs m ''conversation_id''
      else case objs m ''conversation'' of None \<Rightarrow> None | Some ob \<Rightarrow> ob ''id'')"
  by (auto simp: exposedConversationId_def or_str_def truthy_str_def opt_chain_def
      split: option.splits)

text \<open>
  Claim C7. What a message exposes as its session identifier is the first truthy one of
  its properties \<open>sessionId\<close>, \<open>session_id\<close> and \<open>session.id\<close>, in this order, and as
  its conversation identifier the first truthy one of \<open>conversationId\<close>,
  \<open>conversation_id\<close> and \<open>conversation.id\<close>; a string is truthy when it is not empty.
  Over any sequence of backend messages handled by one client object, the first message
  that exposes a session identifier latches it when none is latched, and whatever the
  messages after it expose, the latched identifier stays; likewise for the conversation
  identifier. An identifier that is latched is never replaced by
  \<open>updateIdentifiersFromMessage\<close>.
\<close>

theorem identifiers_first_write_wins:
  "exposedSessionId m =
     (if strs m ''sessionId'' \<noteq> None \<and> strs m ''sessionId'' \<noteq> Some []
      then strs m ''sessionId''
      else if strs m ''session_id'' \<noteq> None \<and> strs m ''session_id'' \<noteq> Some []
      then strs m ''session_id''
      else case objs m ''session'' of None \<Rightarrow> None | Some ob \<Rightarrow> ob ''id'') \<and>
   exposedConversationId m =
     (if strs m ''conversationId'' \<noteq> None \<and> strs m ''conversationId'' \<noteq> Some []
      then strs m ''conversationId''
      else if strs m ''conversation_id'' \<noteq> None \<and> strs m ''conversation_id'' \<noteq> Some []
      then strs m ''conversation_id''
      else case objs m ''conversation'' of None \<Rightarrow> None | Some ob \<Rightarrow> ob ''id'') \<and>
   truthy_str v = (v \<noteq> None \<and> v \<noteq> Some []) \<and>
   (\<not> truthy_str (sessionId c) \<and> list_all (\<lambda>m. \<not> truthy_str (exposedSessionId m)) before \<and>
     truthy_str (exposedSessionId m) \<longrightarrow>
       sessionId (fold updateIdentifiersFromMessage (before @ m # after) c) = exposedSessionId m) \<and>
   (\<not> truthy_str (conversationId c) \<and>
     list_all (\<lambda>m. \<not> truthy_str (exposedConversationId m)) before \<and>
     truthy_str (exposedConversationId m) \<longrightarrow>
       conversationId (fold updateIdentifiersFromMessage (before @ m # after) c) =
         exposedConversationId m) \<and>
   (truthy_str (sessionId c) \<longrightarrow>
       sessionId (fold updateIdentifiersFromMessage after c) = sessionId c) \<and>
   (truthy_str (conversationId c) \<longrightarrow>
       conversationId (fold updateIdentifiersFromMessage after c) = conversationId c)"
proof (intro conjI impI)
  show "exposedSessionId m =
     (if strs m ''sessionId'' \<noteq> None \<and> strs m ''sessionId'' \<noteq> Some []
      then strs m ''sessionId''
      else if strs m ''session_id'' \<noteq> None \<and> strs m ''session_id'' \<noteq> Some []
      then strs m ''session_id''
      else case objs m ''session'' of None \<Rightarrow> None | Some ob \<Rightarrow> ob ''id'')"
    by (rule exposedSessionId_keys)
next
  show "exposedConversationId m =
     (if strs m ''conversationId'' \<noteq> None \<and> strs m ''conversationId'' \<noteq> Some []
      then strs m ''conversationId''
      else if strs m ''conversation_id'' \<noteq> None \<and> strs m ''conversation_id'' \<noteq> Some []
      then strs m ''conversation_id''
      else case objs m ''conversation'' of None \<Rightarrow> None | Some ob \<Rightarrow> ob ''id'')"
    by (rule exposedConversationId_keys)
next
  show "truthy_str v = (v \<noteq> None \<and> v \<noteq> Some [])"
    by (simp add: truthy_str_def split: option.splits)
next
  assume a: "\<not> truthy_str (sessionId c) \<and> list_all (\<lambda>m. \<not> truthy_str (exposedSessionId m)) before \<and>
     truthy_str (exposedSessionId m)"
  let ?c1 = "fold updateIdentifiersFromMessage before c"
  have s1: "sessionId ?c1 = sessionId c" using a by (simp add: unexposed_sessionId_stays)
  have s2: "sessionId (updateIdentifiersFromMessage m ?c1) = exposedSessionId m"
    using a s1 by (simp add: update_sessionId)
  have "truthy_str (sessionId (updateIdentifiersFromMessage m ?c1))" using a s2 by simp
  from latched_sessionId_stays[OF this, of after] s2
  show "sessionId (fold updateIdentifiersFromMessage (before @ m # after) c) = exposedSessionId m"
    by simp
next
  assume a: "\<not> truthy_str (conversationId c) \<and>
     list_all (\<lambda>m. \<not> truthy_str (exposedConversationId m)) before \<and>
     truthy_str (exposedConversationId m)"
  let ?c1 = "fold updateIdentifiersFromMessage before c"
  have s1: "conversationId ?c1 = conversationId c"
    using a by (simp add: unexposed_conversationId_stays)
  have s2: "conversationId (updateIdentifiersFromMessage m ?c1) = exposedConversationId m"
    using a s1 by (simp add: update_conversationId)
  have "truthy_str (conversationId (updateIdentifiersFromMessage m ?c1))" using a s2 by simp
  from latched_conversationId_stays[OF this, of after] s2
  show "conversationId (fold updateIdentifiersFromMessage (before @ m # after) c) =
         exposedConversationId m"
    by simp
next
  assume "truthy_str (sessionId c)"
  then show "sessionId (fold updateIdentifiersFromMessage after c) = sessionId c"
    by (rule latched_sessionId_stays)
next
  assume "truthy_str (conversationId c)"
  then show "conversationId (fold updateIdentifiersFromMessage after c) = conversationId c"
    by (rule latched_conversationId_stays)
qed

text \<open>
  The stream of the claim, \<open>sessionId = A\<close> then \<open>sessionId = B\<close>, latches \<open>A\<close>. In
  the second stream the first message exposes a conversation only, through
  \<open>conversation.id\<close>; the second has an empty \<open>sessionId\<close>, the \<open>session_id\<close> \<open>A\<close> and
  the \<open>session.id\<close> \<open>Z\<close>, and a \<open>conversation_id\<close>; the third has the \<open>sessionId\<close> \<open>B\<close>
  and the \<open>conversationId\<close> \<open>L\<close>.
\<close>

theorem identifiers_first_write_wins_witness:
  "sessionId (fold updateIdentifiersFromMessage
      [idEvent [(''sessionId'', ''A'')] [], idEvent [(''sessionId'', ''B'')] []] newClient) =
     Some ''A'' \<and>
   sessionId (fold updateIdentifiersFromMessage
      [idEvent [] [(''conversation'', [(''id'', ''K'')])],
       idEvent [(''sessionId'', []), (''session_id'', ''A''), (''conversation_id'', ''M'')]
         [(''session'', [(''id'', ''Z'')])],
       idEvent [(''sessionId'', ''B''), (''conversationId'', ''L'')] []] newClient) =
     Some ''A'' \<and>
   conversationId (fold updateIdentifiersFromMessage
      [idEvent [] [(''conversation'', [(''id'', ''K'')])],
       idEvent [(''sessionId'', []), (''session_id'', ''A''), (''conversation_id'', ''M'')]
         [(''session'', [(''id'', ''Z'')])],
       idEvent [(''sessionId'', ''B''), (''conversationId'', ''L'')] []] newClient) =
     Some ''K'' \<and>
   exposedSessionId (idEvent [] [(''session'', [(''id'', ''Z'')])]) = Some ''Z'' \<and>
   exposedSessionId (idEvent [(''sessionId'', ''B''), (''session_id'', ''A'')]
      [(''session'', [(''id'', ''Z'')])]) = Some ''B'' \<and>
   exposedConversationId (idEvent [(''conversation_id'', ''M'')]
      [(''conversation'', [(''id'', ''K'')])]) = Some ''M'' \<and>
   exposedConversationId (idEvent [(''conversationId'', ''L''), (''conversation_id'', ''M'')]
      []) = Some ''L''"
proof -
  let ?a = "idEvent [(''sessionId'', ''A'')] []"
  let ?b = "idEvent [(''sessionId'', ''B'')] []"
  let ?m1 = "idEvent [] [(''conversation'', [(''id'', ''K'')])]"
  let ?m2 = "idEvent [(''sessionId'', []), (''session_id'', ''A''), (''conversation_id'', ''M'')]
         [(''session'', [(''id'', ''Z'')])]"
  let ?m3 = "idEvent [(''sessionId'', ''B''), (''conversationId'', ''L'')] []"
  have n: "sessionId newClient = None" "conversationId newClient = None"
    by (simp_all add: newClient_def)
  have c1: "sessionId (fold updateIdentifiersFromMessage ([] @ ?a # [?b]) newClient) = Some ''A''"
    using identifiers_first_write_wins[of ?a "sessionId newClient" newClient "[]" "[?b]"] n
    by (simp add: idEvent_def truthy_str_def)
  have c2: "sessionId (fold updateIdentifiersFromMessage ([?m1] @ ?m2 # [?m3]) newClient) =
      Some ''A''"
    using identifiers_first_write_wins[of ?m2 "Some ''A''" newClient "[?m1]" "[?m3]"]
      identifiers_first_write_wins[of ?m1 None newClient "[]" "[]"] n
    by (simp add: idEvent_def truthy_str_def)
  have c3: "conversationId (fold updateIdentifiersFromMessage ([] @ ?m1 # [?m2, ?m3]) newClient) =
      Some ''K''"
    using identifiers_first_write_wins[of ?m1 "Some ''K''" newClient "[]" "[?m2, ?m3]"] n
    by (simp add: idEvent_def truthy_str_def)
  have c4: "exposedSessionId (idEvent [] [(''session'', [(''id'', ''Z'')])]) = Some ''Z''"
    using identifiers_first_write_wins[of "idEvent [] [(''session'', [(''id'', ''Z'')])]"]
    by (simp add: idEvent_def truthy_str_def)
  have c5: "exposedSessionId (idEvent [(''sessionId'', ''B''), (''session_id'', ''A'')]
      [(''session'', [(''id'', ''Z'')])]) = Some ''B''"
    using identifiers_first_write_wins[of "idEvent [(''sessionId'', ''B''), (''session_id'', ''A'')]
      [(''session'', [(''id'', ''Z'')])]"]
    by (simp add: idEvent_def truthy_str_def)
  have c6: "exposedConversationId (idEvent [(''conversation_id'', ''M'')]
      [(''conversation'', [(''id'', ''K'')])]) = Some ''M''"
    using identifiers_first_write_wins[of "idEvent [(''conversation_id'', ''M'')]
      [(''conversation'', [(''id'', ''K'')])]"]
    by (simp add: idEvent_def truthy_str_def)
  have c7: "exposedConversationId (idEvent [(''conversationId'', ''L''), (''conversation_id'', ''M'')]
      []) = Some ''L''"
    using identifiers_first_write_wins[of
        "idEvent [(''conversationId'', ''L''), (''conversation_id'', ''M'')] []"]
    by (simp add: idEvent_def truthy_str_def)
  show ?thesis
    using c1 c2 c3 c4 c5 c6 c7 by simp
qed

subsection \<open>Continuing a Gemini session\<close>

lemma extractIdentifiers_empty [simp]: "extractIdentifiers emptyResponse c = c"
  by (simp add: extractIdentifiers_def emptyResponse_def truthy_str_def)





subsection \<open>The session loop\<close>

lemma loopStep_got:
  assumes "\<not> exited s" "\<not> awaitingExit s" "\<not> shouldExit s"
    and "collectBatch (messageQueue s) = Some (batch, q)"
  shows "loopStep b env s =
     (if modeChanged batch (s\<lparr>waitToken := None, messageQueue := q\<rparr>)
      then (Continue, restartBranch b env (s\<lparr>waitToken := None, messageQueue := q\<rparr>))
      else (if awaitingExit (processBatch b env batch (s\<lparr>waitToken := None, messageQueue := q\<rparr>))
            then Waiting else Continue,
            processBatch b env batch (s\<lparr>waitToken := None, messageQueue := q\<rparr>)))"
  using assms
  by (simp add: loopStep_def waitForMessagesAndGetAsString_def Let_def)

lemma modeChanged_upd [simp]:
  "modeChanged batch (s\<lparr>waitToken := w, messageQueue := q\<rparr>) = modeChanged batch s"
  by (simp add: modeChanged_def)

lemma clearSession_fields:
  "sessionId (clearSession c) = None"
  "conversationId (clearSession c) = None"
  "process (clearSession c) = None"
  "stdoutReader (clearSession c) = None"
  "osLog (clearSession c) = osLog c
      @ (case process c of None \<Rightarrow> [] | Some p \<Rightarrow> [Kill (pid p)])
      @ (case stdoutReader c of None \<Rightarrow> [] | Some r \<Rightarrow> [ReaderClose r])"
  by (simp_all add: clearSession_def Let_def split: option.splits)

lemma reset_pending [simp]: "pendingRequests (reset h) = []"
  by (simp add: reset_def)

lemma cursor_reset_pending [simp]: "cursorPendingRequests (cursor_reset now h) = []"
  by (simp add: cursor_reset_def)

lemma resetPermissionHandler_fields:
  "permissionHandler (resetPermissionHandler b now s) =
     (case b of Gemini \<Rightarrow> reset (permissionHandler s) | Cursor \<Rightarrow> permissionHandler s)"
  "cursorPermissionHandler (resetPermissionHandler b now s) =
     (case b of Gemini \<Rightarrow> cursorPermissionHandler s
      | Cursor \<Rightarrow> cursor_reset now (cursorPermissionHandler s))"
  "client (resetPermissionHandler b now s) = client s"
  "messageQueue (resetPermissionHandler b now s) = messageQueue s"
  "wasCreated (resetPermissionHandler b now s) = wasCreated s"
  "currentModeHash (resetPermissionHandler b now s) = currentModeHash s"
  "thinking (resetPermissionHandler b now s) = thinking s"
  "outbox (resetPermissionHandler b now s) = outbox s"
  "exited (resetPermissionHandler b now s) = exited s"
  "awaitingExit (resetPermissionHandler b now s) = awaitingExit s"
  "shouldExit (resetPermissionHandler b now s) = shouldExit s"
  "waitToken (resetPermissionHandler b now s) = waitToken s"
  "abortController (resetPermissionHandler b now s) = abortController s"
  "abortedControllers (resetPermissionHandler b now s) = abortedControllers s"
  by (simp_all add: resetPermissionHandler_def split: backend.splits)

lemma restartBranch_fields:
  "client (restartBranch b env s) = clearSession (client s)"
  "permissionHandler (restartBranch b env s) =
     (case b of Gemini \<Rightarrow> reset (permissionHandler s) | Cursor \<Rightarrow> permissionHandler s)"
  "cursorPermissionHandler (restartBranch b env s) =
     (case b of Gemini \<Rightarrow> cursorPermissionHandler s
      | Cursor \<Rightarrow> cursor_reset (dateNow env) (cursorPermissionHandler s))"
  "messageQueue (restartBranch b env s) = messageQueue s"
  "wasCreated (restartBranch b env s) = False"
  "currentModeHash (restartBranch b env s) = None"
  "thinking (restartBranch b env s) = False"
  "outbox (restartBranch b env s) = outbox s @ [KeepAlive False]"
  "exited (restartBranch b env s) = exited s"
  "awaitingExit (restartBranch b env s) = awaitingExit s"
  "shouldExit (restartBranch b env s) = shouldExit s"
  by (simp_all add: restartBranch_def setThinking_def emit_def resetPermissionHandler_fields
      split: backend.splits)

text \<open>
  Claim C1, where the code departs from it. When a session has been created and the
  drained batch has another mode hash than the session's, the loop body clears the
  backend session and goes on to the next iteration, which awaits the queue again. The
  batch has left the queue, and the state after the step is a function of the state
  before and of the rest of the queue: the batch is kept nowhere. The client has
  terminated its process and closed its reader, and has neither spawned a process nor
  written to one. So the batch that differs is discarded; it does not reach the backend
  after the restart.
\<close>

theorem mode_change_batch_never_started:
  assumes "\<not> exited s" "\<not> awaitingExit s" "\<not> shouldExit s"
    and "collectBatch (messageQueue s) = Some (batch, q)"
    and "modeChanged batch s"
  shows "loopStep b env s =
           (Continue, restartBranch b env (s\<lparr>waitToken := None, messageQueue := q\<rparr>)) \<and>
         messageQueue (snd (loopStep b env s)) = q \<and>
         osLog (client (snd (loopStep b env s))) = osLog (client s)
           @ (case process (client s) of None \<Rightarrow> [] | Some p \<Rightarrow> [Kill (pid p)])
           @ (case stdoutReader (client s) of None \<Rightarrow> [] | Some r \<Rightarrow> [ReaderClose r]) \<and>
         process (client (snd (loopStep b env s))) = None \<and>
         \<not> wasCreated (snd (loopStep b env s))"
  using assms by (simp add: loopStep_got restartBranch_fields clearSession_fields)


lemma finallyBlock_fields:
  "permissionHandler (finallyBlock b env s) =
     (case b of Gemini \<Rightarrow> reset (permissionHandler s) | Cursor \<Rightarrow> permissionHandler s)"
  "cursorPermissionHandler (finallyBlock b env s) =
     (case b of Gemini \<Rightarrow> cursorPermissionHandler s
      | Cursor \<Rightarrow> cursor_reset (dateNow env) (cursorPermissionHandler s))"
  "messageQueue (finallyBlock b env s) = messageQueue s"
  "outbox (finallyBlock b env s) = outbox s @ [KeepAlive False]"
  "thinking (finallyBlock b env s) = False"
  "exited (finallyBlock b env s) = exited s"
  "awaitingExit (finallyBlock b env s) = awaitingExit s"
  "shouldExit (finallyBlock b env s) = shouldExit s"
  "waitToken (finallyBlock b env s) = waitToken s"
  "wasCreated (finallyBlock b env s) = wasCreated s"
  "currentModeHash (finallyBlock b env s) = currentModeHash s"
  "client (finallyBlock b env s) = client s"
  by (simp_all add: finallyBlock_def setThinking_def emit_def resetPermissionHandler_fields
      split: backend.splits)

lemma catchBlock_other:
  "errName e \<noteq> ''AbortError'' \<Longrightarrow>
   catchBlock e s = s\<lparr>outbox := outbox s @ [SendSessionEvent (EventMessage ''Process exited unexpectedly'')]\<rparr>"
  by (simp add: catchBlock_def emit_def)

lemma processBatch_failure:
  assumes "backendCall b env batch s = (Inl e, c)"
  shows "processBatch b env batch s =
           finallyBlock b env (catchBlock e (s\<lparr>currentModeHash := Some (hash batch), client := c\<rparr>))"
proof (cases "wasCreated s")
  case True
  with assms show ?thesis
    by (simp add: processBatch_def backendCall_def Let_def split del: if_split)
next
  case False
  with assms show ?thesis
    by (simp add: processBatch_def backendCall_def Let_def split del: if_split)
qed

lemma collectBatch_push:
  "\<exists>batch q. collectBatch (push text m mq) = Some (batch, q)"
  by (cases "queue mq") (simp_all add: collectBatch_def push_def Let_def)

lemma onUserMessage_fields:
  "exited (onUserMessage um s) = exited s"
  "awaitingExit (onUserMessage um s) = awaitingExit s"
  "shouldExit (onUserMessage um s) = shouldExit s"
  "\<exists>batch q. collectBatch (messageQueue (onUserMessage um s)) = Some (batch, q)"
  by (simp_all add: onUserMessage_def Let_def collectBatch_push split: option.splits)

lemma loopStep_not_break:
  assumes "\<not> exited s" "\<not> awaitingExit s" "\<not> shouldExit s"
    and "collectBatch (messageQueue s) = Some (batch, q)"
  shows "fst (loopStep b env s) \<noteq> Break"
  using assms by (simp add: loopStep_got)

text \<open>
  Claim C9. When the call of the backend for a batch (\<open>startSession\<close> for a session not
  yet created, \<open>continueSession\<close> otherwise) throws an error that is not an
  \<open>AbortError\<close>, the loop body sends the session event \<open>Process exited unexpectedly\<close>
  to the remote client and goes on to the next iteration: the loop is not left, the
  messages that were not drained are still queued, unchanged, and the step after the
  next user message does not leave the loop either.
\<close>

theorem backend_failure_keeps_session:
  assumes "\<not> exited s" "\<not> awaitingExit s" "\<not> shouldExit s"
    and "collectBatch (messageQueue s) = Some (batch, q)"
    and "\<not> modeChanged batch s"
    and "backendCall b env batch s = (Inl e, c)"
    and "errName e \<noteq> ''AbortError''"
  shows "fst (loopStep b env s) = Continue \<and>
         messageQueue (snd (loopStep b env s)) = q \<and>
         outbox (snd (loopStep b env s)) =
           outbox s @ [SendSessionEvent (EventMessage ''Process exited unexpectedly''),
                       KeepAlive False] \<and>
         \<not> exited (snd (loopStep b env s)) \<and>
         \<not> awaitingExit (snd (loopStep b env s)) \<and>
         waitToken (snd (loopStep b env s)) = None \<and>
         wasCreated (snd (loopStep b env s)) = wasCreated s \<and>
         fst (loopStep b env' (onUserMessage um (snd (loopStep b env s)))) \<noteq> Break"
proof -
  let ?s1 = "s\<lparr>waitToken := None, messageQueue := q\<rparr>"
  have "backendCall b env batch ?s1 = backendCall b env batch s"
    by (simp add: backendCall_def)
  then have call: "backendCall b env batch ?s1 = (Inl e, c)"
    using assms(6) by simp
  have step: "loopStep b env s =
      (if awaitingExit (processBatch b env batch ?s1) then Waiting else Continue,
       processBatch b env batch ?s1)"
    using assms(1-5) by (simp add: loopStep_got)
  have pb: "processBatch b env batch ?s1 =
      finallyBlock b env (catchBlock e (?s1\<lparr>currentModeHash := Some (hash batch), client := c\<rparr>))"
    using call by (rule processBatch_failure)
  have flags: "\<not> awaitingExit (processBatch b env batch ?s1)"
      "\<not> exited (processBatch b env batch ?s1)"
      "\<not> shouldExit (processBatch b env batch ?s1)"
    using assms(1-3,7) by (simp_all add: pb finallyBlock_fields catchBlock_other)
  obtain b2 q2 where cb: "collectBatch (messageQueue (onUserMessage um (processBatch b env batch ?s1))) = Some (b2, q2)"
    using onUserMessage_fields(4) by blast
  have nb: "fst (loopStep b env' (onUserMessage um (processBatch b env batch ?s1))) \<noteq> Break"
    using flags cb by (intro loopStep_not_break) (simp_all add: onUserMessage_fields)
  show ?thesis
    using assms(7) flags nb
    by (simp add: step) (simp add: pb finallyBlock_fields catchBlock_other)
qed

theorem mode_change_batch_never_started_witness:
  "queue (messageQueue modeChangeState) =
     [\<lparr>qText = ''second'', qMode = \<lparr>permissionMode = ''yolo'', modeModel = None\<rparr>,
       qHash = ''yolo/'', isolated = False\<rparr>] \<and>
   currentModeHash modeChangeState = Some ''default/'' \<and>
   fst (loopStep Gemini exampleEnv modeChangeState) = Continue \<and>
   queue (messageQueue (snd (loopStep Gemini exampleEnv modeChangeState))) = [] \<and>
   osLog (client (snd (loopStep Gemini exampleEnv modeChangeState))) =
     [Spawn 0 \<lparr>command = ''/usr/bin/gemini'',
               args = [''--output-format'', ''stream-json'', ''-p'',
                       ''first'' @ [CHR 0x0A, CHR 0x0A] @ titleInstruction],
               spawnCwd = ''/work'', stdioConfig = pipe, shell = False, signal = Some 0\<rparr>,
      Kill 0, ReaderClose 0] \<and>
   fst (loopStep Gemini exampleEnv (snd (loopStep Gemini exampleEnv modeChangeState))) = Waiting \<and>
   osLog (client (run Gemini
       [LoopStep exampleEnv, LoopStep exampleEnv,
        UserSends (userMessage ''third'' ''yolo''), LoopStep exampleEnv] modeChangeState)) =
     [Spawn 0 \<lparr>command = ''/usr/bin/gemini'',
               args = [''--output-format'', ''stream-json'', ''-p'',
                       ''first'' @ [CHR 0x0A, CHR 0x0A] @ titleInstruction],
               spawnCwd = ''/work'', stdioConfig = pipe, shell = False, signal = Some 0\<rparr>,
      Kill 0, ReaderClose 0,
      Spawn 1 \<lparr>command = ''/usr/bin/gemini'',
               args = [''--output-format'', ''stream-json'', ''-p'', ''third''],
               spawnCwd = ''/work'', stdioConfig = pipe, shell = False, signal = Some 0\<rparr>]"
proof -
  let ?batch = "\<lparr>message = ''second'', mode = \<lparr>permissionMode = ''yolo'', modeModel = None\<rparr>,
                 hash = ''yolo/''\<rparr>"
  have later: "fst (loopStep Gemini exampleEnv (snd (loopStep Gemini exampleEnv modeChangeState))) = Waiting"
    "osLog (client (run Gemini
       [LoopStep exampleEnv, LoopStep exampleEnv,
        UserSends (userMessage ''third'' ''yolo''), LoopStep exampleEnv] modeChangeState)) =
     [Spawn 0 \<lparr>command = ''/usr/bin/gemini'',
               args = [''--output-format'', ''stream-json'', ''-p'',
                       ''first'' @ [CHR 0x0A, CHR 0x0A] @ titleInstruction],
               spawnCwd = ''/work'', stdioConfig = pipe, shell = False, signal = Some 0\<rparr>,
      Kill 0, ReaderClose 0,
      Spawn 1 \<lparr>command = ''/usr/bin/gemini'',
               args = [''--output-format'', ''stream-json'', ''-p'', ''third''],
               spawnCwd = ''/work'', stdioConfig = pipe, shell = False, signal = Some 0\<rparr>]"
    by code_simp+
  have q: "queue (messageQueue modeChangeState) =
     [\<lparr>qText = ''second'', qMode = \<lparr>permissionMode = ''yolo'', modeModel = None\<rparr>,
       qHash = ''yolo/'', isolated = False\<rparr>]"
    by code_simp
  have h: "currentModeHash modeChangeState = Some ''default/''" by code_simp
  have f: "\<not> exited modeChangeState" "\<not> awaitingExit modeChangeState"
      "\<not> shouldExit modeChangeState"
    by code_simp+
  have cb: "collectBatch (messageQueue modeChangeState) =
      Some (?batch, (messageQueue modeChangeState)\<lparr>queue := []\<rparr>)"
    using q by (simp add: collectBatch_def)
  have mc: "modeChanged ?batch modeChangeState" by code_simp
  have l: "osLog (client modeChangeState) =
     [Spawn 0 \<lparr>command = ''/usr/bin/gemini'',
               args = [''--output-format'', ''stream-json'', ''-p'',
                       ''first'' @ [CHR 0x0A, CHR 0x0A] @ titleInstruction],
               spawnCwd = ''/work'', stdioConfig = pipe, shell = False, signal = Some 0\<rparr>]"
    by code_simp
  have p: "process (client modeChangeState) = Some \<lparr>pid = 0, killed = False, piped = True\<rparr>"
      "stdoutReader (client modeChangeState) = Some 0"
    by code_simp+
  have step: "fst (loopStep Gemini exampleEnv modeChangeState) = Continue"
    "queue (messageQueue (snd (loopStep Gemini exampleEnv modeChangeState))) = []"
    "osLog (client (snd (loopStep Gemini exampleEnv modeChangeState))) =
     [Spawn 0 \<lparr>command = ''/usr/bin/gemini'',
               args = [''--output-format'', ''stream-json'', ''-p'',
                       ''first'' @ [CHR 0x0A, CHR 0x0A] @ titleInstruction],
               spawnCwd = ''/work'', stdioConfig = pipe, shell = False, signal = Some 0\<rparr>,
      Kill 0, ReaderClose 0]"
    using mode_change_batch_never_started[OF f cb mc, of Gemini exampleEnv] l p
    by (simp_all add: restartBranch_fields clearSession_fields)
  show ?thesis
    by (intro conjI) (fact q h step later)+
qed

theorem backend_failure_keeps_session_witness:
  "fst (backendCall Gemini noCliEnv
          \<lparr>message = ''first'', mode = \<lparr>permissionMode = ''default'', modeModel = None\<rparr>,
           hash = ''default/''\<rparr> failingStartState) =
     Inl \<lparr>errName = ''Error'',
          errMessage = ''Gemini CLI not found. Please install it: npm install -g @google/gemini-cli''\<rparr> \<and>
   fst (loopStep Gemini noCliEnv failingStartState) = Continue \<and>
   queue (messageQueue (snd (loopStep Gemini noCliEnv failingStartState))) = [] \<and>
   outbox (snd (loopStep Gemini noCliEnv failingStartState)) =
     [KeepAlive False, SendSessionEvent (EventMessage ''Process exited unexpectedly''),
      KeepAlive False] \<and>
   \<not> exited (snd (loopStep Gemini noCliEnv failingStartState)) \<and>
   fst (loopStep Gemini exampleEnv (onUserMessage (userMessage ''again'' ''default'')
          (snd (loopStep Gemini noCliEnv failingStartState)))) \<noteq> Break"
proof -
  let ?batch = "\<lparr>message = ''first'', mode = \<lparr>permissionMode = ''default'', modeModel = None\<rparr>,
                 hash = ''default/''\<rparr>"
  let ?e = "\<lparr>errName = ''Error'',
          errMessage = ''Gemini CLI not found. Please install it: npm install -g @google/gemini-cli''\<rparr>"
  have q: "queue (messageQueue failingStartState) =
     [\<lparr>qText = ''first'', qMode = \<lparr>permissionMode = ''default'', modeModel = None\<rparr>,
       qHash = ''default/'', isolated = False\<rparr>]"
    by code_simp
  have f: "\<not> exited failingStartState" "\<not> awaitingExit failingStartState"
      "\<not> shouldExit failingStartState"
    by code_simp+
  have cb: "collectBatch (messageQueue failingStartState) =
      Some (?batch, (messageQueue failingStartState)\<lparr>queue := []\<rparr>)"
    using q by (simp add: collectBatch_def)
  have mc: "\<not> modeChanged ?batch failingStartState" by code_simp
  have r: "fst (backendCall Gemini noCliEnv ?batch failingStartState) = Inl ?e" by code_simp
  then have call: "backendCall Gemini noCliEnv ?batch failingStartState =
      (Inl ?e, snd (backendCall Gemini noCliEnv ?batch failingStartState))"
    by (metis prod.collapse)
  have ne: "errName ?e \<noteq> ''AbortError''" by simp
  have ob: "outbox failingStartState = [KeepAlive False]" by code_simp
  show ?thesis
    using backend_failure_keeps_session[OF f cb mc call ne,
        of exampleEnv "userMessage ''again'' ''default''"] r ob
    by simp
qed

subsection \<open>The handler of \<open>runGemini\<close>\<close>

lemma sendAgentMessage_fields:
  "outbox (sendAgentMessage body s) = outbox s @ [SendAgentMessage body (uuidCount s)]"
  "currentMessageContent (sendAgentMessage body s) = currentMessageContent s"
  "isStreamingMessage (sendAgentMessage body s) = isStreamingMessage s"
  "uuidCount (sendAgentMessage body s) = Suc (uuidCount s)"
  by (simp_all add: sendAgentMessage_def)

lemma setThinking_fields:
  "outbox (setThinking v s) = outbox s @ [KeepAlive v]"
  "currentMessageContent (setThinking v s) = currentMessageContent s"
  "isStreamingMessage (setThinking v s) = isStreamingMessage s"
  "uuidCount (setThinking v s) = uuidCount s"
  by (simp_all add: setThinking_def emit_def)

lemma sendReady_fields:
  "outbox (sendReady s) = outbox s @ [SendSessionEvent Ready, PushToAllDevices]"
  "currentMessageContent (sendReady s) = currentMessageContent s"
  "isStreamingMessage (sendReady s) = isStreamingMessage s"
  by (simp_all add: sendReady_def emit_def)

lemma emit_fields:
  "outbox (emit e s) = outbox s @ [e]"
  "currentMessageContent (emit e s) = currentMessageContent s"
  "isStreamingMessage (emit e s) = isStreamingMessage s"
  by (simp_all add: emit_def)

lemma callIdOf_fields:
  "outbox (snd (callIdOf msg keys s)) = outbox s"
  "currentMessageContent (snd (callIdOf msg keys s)) = currentMessageContent s"
  "isStreamingMessage (snd (callIdOf msg keys s)) = isStreamingMessage s"
  by (simp_all add: callIdOf_def)

lemma flush_fields:
  "outbox (flushAccumulatedMessage s) = outbox s @
     (if isStreamingMessage s \<and> currentMessageContent s \<noteq> []
      then [SendAgentMessage (Message (currentMessageContent s)) (uuidCount s)] else [])"
  "currentMessageContent (flushAccumulatedMessage s) =
     (if isStreamingMessage s then [] else currentMessageContent s)"
  "isStreamingMessage (flushAccumulatedMessage s) =
     (isStreamingMessage s \<and> currentMessageContent s = [])"
  by (auto simp: flushAccumulatedMessage_def sendAgentMessage_def)

lemma messagesOf_append: "messagesOf (xs @ ys) = messagesOf xs @ messagesOf ys"
  by (induction xs rule: messagesOf.induct) simp_all

lemma newEffects_append: "outbox s' = outbox s @ es \<Longrightarrow> newEffects s s' = es"
  by (simp add: newEffects_def)

lemma handler_delta:
  assumes "msgType msg \<in> set textTypes" "delta msg"
  shows "gemini_handler msg s =
           s\<lparr>isStreamingMessage := True,
             currentMessageContent := currentMessageContent s @ messageText msg\<rparr>"
  using assms by (simp add: gemini_handler_def textTypes_def messageText_def Let_def)

lemma handler_complete:
  assumes "msgType msg \<in> set textTypes" "\<not> delta msg"
  shows "outbox (gemini_handler msg s) = outbox s
           @ (let finalContent = (if isStreamingMessage s
                                  then currentMessageContent s @ messageText msg
                                  else messageText msg)
              in if finalContent \<noteq> [] then [SendAgentMessage (Message finalContent) (uuidCount s)]
                 else [])
           @ [KeepAlive False] \<and>
         currentMessageContent (gemini_handler msg s) = [] \<and>
         \<not> isStreamingMessage (gemini_handler msg s)"
  using assms
  by (simp add: gemini_handler_def textTypes_def messageText_def Let_def
      setThinking_fields sendAgentMessage_fields)

lemma handler_flushing:
  assumes "msgType msg \<in> set flushingTypes"
  shows "(\<exists>rest. outbox (gemini_handler msg s) = outbox s
             @ (if isStreamingMessage s \<and> currentMessageContent s \<noteq> []
                then [SendAgentMessage (Message (currentMessageContent s)) (uuidCount s)] else [])
             @ rest \<and> messagesOf rest = []) \<and>
         currentMessageContent (gemini_handler msg s) =
           (if isStreamingMessage s then [] else currentMessageContent s)"
proof -
  consider "msgType msg = ''tool_use''" | "msgType msg = ''tool_call''"
    | "msgType msg = ''function_call''" | "msgType msg = ''done''"
    | "msgType msg = ''complete''" | "msgType msg = ''finished''" | "msgType msg = ''result''"
    using assms by (auto simp: flushingTypes_def)
  then show ?thesis
  proof cases
    case 1
    then show ?thesis
      by (simp add: gemini_handler_def Let_def case_prod_unfold sendAgentMessage_fields
          callIdOf_fields flush_fields)
  next
    case 2
    then show ?thesis
      by (simp add: gemini_handler_def Let_def case_prod_unfold sendAgentMessage_fields
          callIdOf_fields flush_fields)
  next
    case 3
    then show ?thesis
      by (simp add: gemini_handler_def Let_def case_prod_unfold sendAgentMessage_fields
          callIdOf_fields flush_fields)
  next
    case 4
    then show ?thesis
      by (simp add: gemini_handler_def Let_def sendReady_fields setThinking_fields flush_fields)
  next
    case 5
    then show ?thesis
      by (simp add: gemini_handler_def Let_def sendReady_fields setThinking_fields flush_fields)
  next
    case 6
    then show ?thesis
      by (simp add: gemini_handler_def Let_def sendReady_fields setThinking_fields flush_fields)
  next
    case 7
    then show ?thesis
      by (cases "stats msg")
         (simp_all add: gemini_handler_def Let_def sendReady_fields setThinking_fields
           flush_fields emit_fields)
  qed
qed

lemma handler_error:
  assumes "msgType msg = ''error''"
  shows "gemini_handler msg s =
           (if errorText msg \<noteq> [] \<and> \<not> isGeminiDebugOutput (errorText msg)
            then sendAgentMessage (ErrorMessage (errorText msg)) s else s)"
  using assms by (simp add: gemini_handler_def Let_def errorText_def)

lemma handler_unknown:
  assumes "msgType msg \<notin> set geminiKnownTypes"
  shows "gemini_handler msg s =
           (case firstStr msg [''message'', ''text'', ''content''] of
              None \<Rightarrow> s
            | Some unknownText \<Rightarrow>
                if unknownText \<noteq> [] \<and> \<not> isGeminiDebugOutput unknownText
                then sendAgentMessage (Message unknownText) s else s)"
  using assms by (simp add: gemini_handler_def Let_def geminiKnownTypes_def)

lemma handler_deltas:
  "list_all (\<lambda>m. msgType m \<in> set textTypes \<and> delta m) ds \<Longrightarrow>
   fold gemini_handler ds s =
     s\<lparr>isStreamingMessage := isStreamingMessage s \<or> ds \<noteq> [],
       currentMessageContent := currentMessageContent s @ concat (map messageText ds)\<rparr>"
  by (induction ds arbitrary: s) (simp_all add: handler_delta)

lemma handler_passing:
  assumes "msgType msg = ''tool_result'' \<or> msgType msg = ''function_result'' \<or>
           msgType msg = ''thinking'' \<or> msgType msg = ''reasoning'' \<or>
           msgType msg = ''error'' \<or> msgType msg = ''system'' \<or>
           msgType msg = ''system_message'' \<or> msgType msg = ''progress'' \<or>
           msgType msg = ''status'' \<or> msgType msg = ''log'' \<or>
           msgType msg = ''debug'' \<or> msgType msg = ''info''"
  shows "currentMessageContent (gemini_handler msg s) = currentMessageContent s \<and>
         isStreamingMessage (gemini_handler msg s) = isStreamingMessage s \<and>
         messagesOf (newEffects s (gemini_handler msg s)) = []"
  using assms
  by (elim disjE)
     (simp_all add: gemini_handler_def Let_def case_prod_unfold sendAgentMessage_fields
       callIdOf_fields setThinking_fields newEffects_def)

lemma handler_other:
  assumes "msgType msg \<notin> set textTypes" "msgType msg \<notin> set flushingTypes"
  shows "currentMessageContent (gemini_handler msg s) = currentMessageContent s"
    and "isStreamingMessage (gemini_handler msg s) = isStreamingMessage s"
    and "messagesOf (newEffects s (gemini_handler msg s)) =
           (if msgType msg \<notin> set geminiKnownTypes \<and> messageText msg \<noteq> [] \<and>
               \<not> isGeminiDebugOutput (messageText msg)
            then [messageText msg] else [])"
proof -
  have "currentMessageContent (gemini_handler msg s) = currentMessageContent s \<and>
      isStreamingMessage (gemini_handler msg s) = isStreamingMessage s \<and>
      messagesOf (newEffects s (gemini_handler msg s)) =
           (if msgType msg \<notin> set geminiKnownTypes \<and> messageText msg \<noteq> [] \<and>
               \<not> isGeminiDebugOutput (messageText msg)
            then [messageText msg] else [])"
  proof (cases "msgType msg \<in> set geminiKnownTypes")
    case True
    with assms have "msgType msg = ''tool_result'' \<or> msgType msg = ''function_result'' \<or>
           msgType msg = ''thinking'' \<or> msgType msg = ''reasoning'' \<or>
           msgType msg = ''error'' \<or> msgType msg = ''system'' \<or>
           msgType msg = ''system_message'' \<or> msgType msg = ''progress'' \<or>
           msgType msg = ''status'' \<or> msgType msg = ''log'' \<or>
           msgType msg = ''debug'' \<or> msgType msg = ''info''"
      by (simp add: geminiKnownTypes_def textTypes_def flushingTypes_def)
    from handler_passing[OF this, of s] True show ?thesis by simp
  next
    case False
    then show ?thesis
      by (cases "firstStr msg [''message'', ''text'', ''content'']")
         (simp_all add: handler_unknown sendAgentMessage_fields newEffects_def messageText_def
           or_default_def)
  qed
  then show "currentMessageContent (gemini_handler msg s) = currentMessageContent s"
    and "isStreamingMessage (gemini_handler msg s) = isStreamingMessage s"
    and "messagesOf (newEffects s (gemini_handler msg s)) =
           (if msgType msg \<notin> set geminiKnownTypes \<and> messageText msg \<noteq> [] \<and>
               \<not> isGeminiDebugOutput (messageText msg)
            then [messageText msg] else [])"
    by blast+
qed

lemma handler_flushing_flag:
  assumes "msgType msg \<in> set flushingTypes"
  shows "isStreamingMessage (gemini_handler msg s) =
           (isStreamingMessage s \<and> currentMessageContent s = [])"
proof -
  consider "msgType msg = ''tool_use''" | "msgType msg = ''tool_call''"
    | "msgType msg = ''function_call''" | "msgType msg = ''done''"
    | "msgType msg = ''complete''" | "msgType msg = ''finished''" | "msgType msg = ''result''"
    using assms by (auto simp: flushingTypes_def)
  then show ?thesis
  proof cases
    case 1
    then show ?thesis
      by (simp add: gemini_handler_def Let_def case_prod_unfold sendAgentMessage_fields
          callIdOf_fields flush_fields)
  next
    case 2
    then show ?thesis
      by (simp add: gemini_handler_def Let_def case_prod_unfold sendAgentMessage_fields
          callIdOf_fields flush_fields)
  next
    case 3
    then show ?thesis
      by (simp add: gemini_handler_def Let_def case_prod_unfold sendAgentMessage_fields
          callIdOf_fields flush_fields)
  next
    case 4
    then show ?thesis
      by (simp add: gemini_handler_def Let_def sendReady_fields setThinking_fields flush_fields)
  next
    case 5
    then show ?thesis
      by (simp add: gemini_handler_def Let_def sendReady_fields setThinking_fields flush_fields)
  next
    case 6
    then show ?thesis
      by (simp add: gemini_handler_def Let_def sendReady_fields setThinking_fields flush_fields)
  next
    case 7
    then show ?thesis
      by (cases "stats msg")
         (simp_all add: gemini_handler_def Let_def sendReady_fields setThinking_fields
           flush_fields emit_fields)
  qed
qed

text \<open>
  Claim C6, as amended. The handler of \<open>runGemini\<close> has three kinds of events. An event
  of a text type (\<open>message\<close>, \<open>assistant\<close>, \<open>assistant_message\<close>) with \<open>delta === true\<close>
  appends its text to the buffer and sends nothing, so a run of such events leaves their
  texts concatenated in the buffer. The buffered text is sent as one \<open>message\<close> at a
  terminator, and the buffer is cleared there: a text event that is not a delta (its own
  text is appended first; nothing is sent when the result is empty), a tool-call event
  (\<open>tool_use\<close>, \<open>tool_call\<close>, \<open>function_call\<close>) or a completion event (\<open>done\<close>,
  \<open>complete\<close>, \<open>finished\<close>, \<open>result\<close>), where the flushed message is the first thing
  sent and the only \<open>message\<close>. Every other event leaves the buffer and the streaming
  flag as they are, an \<open>error\<close> event among them, and sends no \<open>message\<close>, with one
  exception: an event of a type the handler has no case for, whose text is not empty and
  not recognized as noise, sends that text as a \<open>message\<close> of its own, whatever the
  buffer holds. Flushing an empty buffer changes nothing.
\<close>

theorem streaming_reassembly:
  "(msgType msg \<in> set textTypes \<and> delta msg \<longrightarrow>
      gemini_handler msg s =
        s\<lparr>isStreamingMessage := True,
          currentMessageContent := currentMessageContent s @ messageText msg\<rparr>) \<and>
   (list_all (\<lambda>m. msgType m \<in> set textTypes \<and> delta m) ds \<longrightarrow>
      fold gemini_handler ds s =
        s\<lparr>isStreamingMessage := isStreamingMessage s \<or> ds \<noteq> [],
          currentMessageContent := currentMessageContent s @ concat (map messageText ds)\<rparr>) \<and>
   (msgType msg \<in> set textTypes \<and> \<not> delta msg \<longrightarrow>
      outbox (gemini_handler msg s) = outbox s
        @ (let finalContent = (if isStreamingMessage s
                               then currentMessageContent s @ messageText msg
                               else messageText msg)
           in if finalContent \<noteq> [] then [SendAgentMessage (Message finalContent) (uuidCount s)]
              else [])
        @ [KeepAlive False] \<and>
      currentMessageContent (gemini_handler msg s) = [] \<and>
      \<not> isStreamingMessage (gemini_handler msg s)) \<and>
   (msgType msg \<in> set flushingTypes \<longrightarrow>
      (\<exists>rest. outbox (gemini_handler msg s) = outbox s
          @ (if isStreamingMessage s \<and> currentMessageContent s \<noteq> []
             then [SendAgentMessage (Message (currentMessageContent s)) (uuidCount s)] else [])
          @ rest \<and> messagesOf rest = []) \<and>
      currentMessageContent (gemini_handler msg s) =
        (if isStreamingMessage s then [] else currentMessageContent s) \<and>
      isStreamingMessage (gemini_handler msg s) =
        (isStreamingMessage s \<and> currentMessageContent s = [])) \<and>
   (msgType msg \<notin> set textTypes \<and> msgType msg \<notin> set flushingTypes \<longrightarrow>
      currentMessageContent (gemini_handler msg s) = currentMessageContent s \<and>
      isStreamingMessage (gemini_handler msg s) = isStreamingMessage s \<and>
      messagesOf (newEffects s (gemini_handler msg s)) =
        (if msgType msg \<notin> set geminiKnownTypes \<and> messageText msg \<noteq> [] \<and>
            \<not> isGeminiDebugOutput (messageText msg)
         then [messageText msg] else [])) \<and>
   (msgType msg = ''error'' \<longrightarrow>
      currentMessageContent (gemini_handler msg s) = currentMessageContent s \<and>
      isStreamingMessage (gemini_handler msg s) = isStreamingMessage s \<and>
      messagesOf (newEffects s (gemini_handler msg s)) = []) \<and>
   (currentMessageContent s = [] \<longrightarrow> flushAccumulatedMessage s = s)"
proof (intro conjI impI)
  assume "msgType msg \<in> set textTypes \<and> delta msg"
  then show "gemini_handler msg s =
        s\<lparr>isStreamingMessage := True,
          currentMessageContent := currentMessageContent s @ messageText msg\<rparr>"
    by (simp add: handler_delta)
next
  assume "list_all (\<lambda>m. msgType m \<in> set textTypes \<and> delta m) ds"
  then show "fold gemini_handler ds s =
        s\<lparr>isStreamingMessage := isStreamingMessage s \<or> ds \<noteq> [],
          currentMessageContent := currentMessageContent s @ concat (map messageText ds)\<rparr>"
    by (rule handler_deltas)
next
  assume a: "msgType msg \<in> set textTypes \<and> \<not> delta msg"
  then have *: "msgType msg \<in> set textTypes" "\<not> delta msg" by simp_all
  from handler_complete[OF *, of s]
  show "outbox (gemini_handler msg s) = outbox s
        @ (let finalContent = (if isStreamingMessage s
                               then currentMessageContent s @ messageText msg
                               else messageText msg)
           in if finalContent \<noteq> [] then [SendAgentMessage (Message finalContent) (uuidCount s)]
              else [])
        @ [KeepAlive False]"
    and "currentMessageContent (gemini_handler msg s) = []"
    and "\<not> isStreamingMessage (gemini_handler msg s)"
    by blast+
next
  assume a: "msgType msg \<in> set flushingTypes"
  from handler_flushing[OF a, of s]
  show "\<exists>rest. outbox (gemini_handler msg s) = outbox s
          @ (if isStreamingMessage s \<and> currentMessageContent s \<noteq> []
             then [SendAgentMessage (Message (currentMessageContent s)) (uuidCount s)] else [])
          @ rest \<and> messagesOf rest = []"
    and "currentMessageContent (gemini_handler msg s) =
        (if isStreamingMessage s then [] else currentMessageContent s)"
    by blast+
  from a show "isStreamingMessage (gemini_handler msg s) =
        (isStreamingMessage s \<and> currentMessageContent s = [])"
    by (rule handler_flushing_flag)
next
  assume a: "msgType msg \<notin> set textTypes \<and> msgType msg \<notin> set flushingTypes"
  then have *: "msgType msg \<notin> set textTypes" "msgType msg \<notin> set flushingTypes" by simp_all
  show "currentMessageContent (gemini_handler msg s) = currentMessageContent s"
    by (rule handler_other(1)[OF *])
  show "isStreamingMessage (gemini_handler msg s) = isStreamingMessage s"
    by (rule handler_other(2)[OF *])
  show "messagesOf (newEffects s (gemini_handler msg s)) =
        (if msgType msg \<notin> set geminiKnownTypes \<and> messageText msg \<noteq> [] \<and>
            \<not> isGeminiDebugOutput (messageText msg)
         then [messageText msg] else [])"
    by (rule handler_other(3)[OF *])
next
  assume a: "msgType msg = ''error''"
  show "currentMessageContent (gemini_handler msg s) = currentMessageContent s"
    by (simp add: handler_error[OF a] sendAgentMessage_fields)
  show "isStreamingMessage (gemini_handler msg s) = isStreamingMessage s"
    by (simp add: handler_error[OF a] sendAgentMessage_fields)
  show "messagesOf (newEffects s (gemini_handler msg s)) = []"
    by (simp add: handler_error[OF a] sendAgentMessage_fields newEffects_def)
next
  assume "currentMessageContent s = []"
  then show "flushAccumulatedMessage s = s"
    by (simp add: flushAccumulatedMessage_def)
qed

theorem streaming_reassembly_witness:
  "currentMessageContent (fold gemini_handler helloDeltas (newSession exampleHasher [CHR 0x0A])) =
     ''Hello'' \<and>
   outbox (fold gemini_handler helloDeltas (newSession exampleHasher [CHR 0x0A])) =
     [KeepAlive False] \<and>
   messagesOf (newEffects
      (fold gemini_handler helloDeltas (newSession exampleHasher [CHR 0x0A]))
      (gemini_handler (textEvent ''message'' [] False)
         (fold gemini_handler helloDeltas (newSession exampleHasher [CHR 0x0A])))) = [''Hello''] \<and>
   currentMessageContent (gemini_handler (textEvent ''message'' [] False)
      (fold gemini_handler helloDeltas (newSession exampleHasher [CHR 0x0A]))) = [] \<and>
   messagesOf (newEffects
      (fold gemini_handler helloDeltas (newSession exampleHasher [CHR 0x0A]))
      (gemini_handler (textEvent ''done'' [] False)
         (fold gemini_handler helloDeltas (newSession exampleHasher [CHR 0x0A])))) = [''Hello''] \<and>
   currentMessageContent (gemini_handler (textEvent ''done'' [] False)
      (fold gemini_handler helloDeltas (newSession exampleHasher [CHR 0x0A]))) = [] \<and>
   messagesOf (newEffects
      (fold gemini_handler helloDeltas (newSession exampleHasher [CHR 0x0A]))
      (gemini_handler (textEvent ''tool_result'' ''ok'' False)
         (fold gemini_handler helloDeltas (newSession exampleHasher [CHR 0x0A])))) = [] \<and>
   currentMessageContent (gemini_handler (textEvent ''tool_result'' ''ok'' False)
      (fold gemini_handler helloDeltas (newSession exampleHasher [CHR 0x0A]))) = ''Hello'' \<and>
   messagesOf (newEffects
      (fold gemini_handler helloDeltas (newSession exampleHasher [CHR 0x0A]))
      (gemini_handler (textEvent ''telemetry'' ''X'' False)
         (fold gemini_handler helloDeltas (newSession exampleHasher [CHR 0x0A])))) = [''X''] \<and>
   currentMessageContent (gemini_handler (textEvent ''telemetry'' ''X'' False)
      (fold gemini_handler helloDeltas (newSession exampleHasher [CHR 0x0A]))) = ''Hello''"
proof -
  let ?init = "newSession exampleHasher [CHR 0x0A]"
  let ?s = "fold gemini_handler helloDeltas ?init"
  have ds: "list_all (\<lambda>m. msgType m \<in> set textTypes \<and> delta m) helloDeltas"
      "concat (map messageText helloDeltas) = ''Hello''" "helloDeltas \<noteq> []"
    by code_simp+
  have s0: "currentMessageContent ?init = []" "outbox ?init = [KeepAlive False]"
      "\<not> isStreamingMessage ?init" "uuidCount ?init = 0"
    by (simp_all add: newSession_def)
  have run: "?s = ?init\<lparr>isStreamingMessage := True, currentMessageContent := ''Hello''\<rparr>"
    using streaming_reassembly[of "errorEvent []" ?init helloDeltas, THEN conjunct2, THEN conjunct1]
      ds s0
    by simp
  have b: "isStreamingMessage ?s" "currentMessageContent ?s = ''Hello''"
      "outbox ?s = [KeepAlive False]" "uuidCount ?s = 0"
    by (simp_all add: run s0)
  have t: "msgType (textEvent ''message'' [] False) \<in> set textTypes"
      "\<not> delta (textEvent ''message'' [] False)"
      "messageText (textEvent ''message'' [] False) = []"
    by code_simp+
  have d: "msgType (textEvent ''done'' [] False) \<in> set flushingTypes" by code_simp
  have r: "msgType (textEvent ''tool_result'' ''ok'' False) \<notin> set textTypes"
      "msgType (textEvent ''tool_result'' ''ok'' False) \<notin> set flushingTypes"
      "msgType (textEvent ''tool_result'' ''ok'' False) \<in> set geminiKnownTypes"
    by code_simp+
  have u: "msgType (textEvent ''telemetry'' ''X'' False) \<notin> set textTypes"
      "msgType (textEvent ''telemetry'' ''X'' False) \<notin> set flushingTypes"
      "msgType (textEvent ''telemetry'' ''X'' False) \<notin> set geminiKnownTypes"
      "messageText (textEvent ''telemetry'' ''X'' False) = ''X''"
      "\<not> isGeminiDebugOutput ''X''"
    by code_simp+
  have c1: "messagesOf (newEffects ?s (gemini_handler (textEvent ''message'' [] False) ?s)) =
      [''Hello'']"
    "currentMessageContent (gemini_handler (textEvent ''message'' [] False) ?s) = []"
    using streaming_reassembly[of "textEvent ''message'' [] False" ?s "[]"] t b
    by (simp_all add: Let_def newEffects_def)
  have c2: "messagesOf (newEffects ?s (gemini_handler (textEvent ''done'' [] False) ?s)) =
      [''Hello'']"
    "currentMessageContent (gemini_handler (textEvent ''done'' [] False) ?s) = []"
    using streaming_reassembly[of "textEvent ''done'' [] False" ?s "[]"] d b
    by (auto simp: newEffects_def messagesOf_append)
  have c3: "messagesOf (newEffects ?s (gemini_handler (textEvent ''tool_result'' ''ok'' False) ?s)) = []"
    "currentMessageContent (gemini_handler (textEvent ''tool_result'' ''ok'' False) ?s) = ''Hello''"
    using streaming_reassembly[of "textEvent ''tool_result'' ''ok'' False" ?s "[]"] r b
    by simp_all
  have c4: "messagesOf (newEffects ?s (gemini_handler (textEvent ''telemetry'' ''X'' False) ?s)) = [''X'']"
    "currentMessageContent (gemini_handler (textEvent ''telemetry'' ''X'' False) ?s) = ''Hello''"
    using streaming_reassembly[of "textEvent ''telemetry'' ''X'' False" ?s "[]"] u b
    by simp_all
  show ?thesis
    by (intro conjI) (fact b c1 c2 c3 c4)+
qed

text \<open>
  Claim C6 as stated fails in two ways. After the deltas \<open>Hel\<close> and \<open>lo\<close>, an \<open>error\<close>
  event sends the error and no \<open>message\<close>; the buffer still holds \<open>Hello\<close> and is not
  cleared. And an event of a type without a case, which is no terminator, sends its text
  as a \<open>message\<close> while the buffer holds \<open>Hello\<close>: the stream \<open>Hel\<close>, \<open>lo\<close>,
  \<open>telemetry X\<close>, \<open>done\<close> yields the messages \<open>X\<close> and \<open>Hello\<close>, in that order.
\<close>

theorem error_does_not_flush_counterexample:
  "messagesOf (outbox (gemini_handler (errorEvent ''boom'')
      (fold gemini_handler helloDeltas (newSession exampleHasher [CHR 0x0A])))) = [] \<and>
   outbox (gemini_handler (errorEvent ''boom'')
      (fold gemini_handler helloDeltas (newSession exampleHasher [CHR 0x0A]))) =
     [KeepAlive False, SendAgentMessage (ErrorMessage ''boom'') 0] \<and>
   currentMessageContent (gemini_handler (errorEvent ''boom'')
      (fold gemini_handler helloDeltas (newSession exampleHasher [CHR 0x0A]))) = ''Hello'' \<and>
   isStreamingMessage (gemini_handler (errorEvent ''boom'')
      (fold gemini_handler helloDeltas (newSession exampleHasher [CHR 0x0A]))) \<and>
   outbox (gemini_handler (textEvent ''telemetry'' ''X'' False)
      (fold gemini_handler helloDeltas (newSession exampleHasher [CHR 0x0A]))) =
     [KeepAlive False, SendAgentMessage (Message ''X'') 0] \<and>
   currentMessageContent (gemini_handler (textEvent ''telemetry'' ''X'' False)
      (fold gemini_handler helloDeltas (newSession exampleHasher [CHR 0x0A]))) = ''Hello'' \<and>
   messagesOf (outbox (fold gemini_handler
      (helloDeltas @ [textEvent ''telemetry'' ''X'' False, textEvent ''done'' [] False])
      (newSession exampleHasher [CHR 0x0A]))) = [''X'', ''Hello'']"
  by code_simp

subsection \<open>Noise\<close>

lemma errorEvent_reads:
  "msgType (errorEvent text) = ''error''"
  "errorText (errorEvent text) = text"
  by (simp_all add: msgType_def errorEvent_def errorText_def or_str_def or_default_def
      truthy_str_def)

lemma cursor_onStderr_forwards:
  "outbox (cursor_onStderr chunk s) =
     outbox s @ [SendAgentMessage
                   (ErrorMessage (if chunk = [] then ''Unknown error'' else chunk)) (uuidCount s)]"
proof -
  have t: "msgType (errorEvent chunk) = ''error''" by (rule errorEvent_reads)
  have f: "or_default (firstStr (errorEvent chunk) [''message'', ''error'']) ''Unknown error'' =
      (if chunk = [] then ''Unknown error'' else chunk)"
    by (cases chunk) (simp_all add: errorEvent_def or_str_def or_default_def truthy_str_def)
  show ?thesis
    by (simp add: cursor_onStderr_def cursor_handler_def Let_def t f sendAgentMessage_fields
        del: firstStr.simps)
qed

text \<open>
  Claim C8, as amended. In the Gemini integration, a text that \<open>isGeminiDebugOutput\<close>
  recognizes produces nothing when it arrives as the text of an \<open>error\<close> event, as the
  text of an event of a type the handler has no case for, or as a chunk on the standard
  error of the child process (trimmed): the session is unchanged, nothing is handed to
  the transport. What is recognized includes the log prefixes such as \<open>[DEBUG]\<close> and
  \<open>[INFO]\<close>, lines that start with \<open>[\<close> or \<open>{\<close>, lines that are a number and lines that
  are a closing bracket. The Cursor integration has no such filter: every chunk on the
  standard error of its child process is sent as an error message, as it is (an empty
  one as \<open>Unknown error\<close>).
\<close>

theorem gemini_noise_filtered:
  "(msgType msg = ''error'' \<and> isGeminiDebugOutput (errorText msg) \<longrightarrow>
      gemini_handler msg s = s \<and> outbox (gemini_handleMessage msg s) = outbox s) \<and>
   (msgType msg \<notin> set geminiKnownTypes \<and>
    firstStr msg [''message'', ''text'', ''content''] = Some line \<and> isGeminiDebugOutput line \<longrightarrow>
      gemini_handler msg s = s \<and> outbox (gemini_handleMessage msg s) = outbox s) \<and>
   (isGeminiDebugOutput (trim chunk) \<longrightarrow> gemini_onStderr chunk s = s) \<and>
   (re_logPrefix line \<or> re_jsonStart line \<or> re_justNumber line \<or> re_justCloser line \<longrightarrow>
      isGeminiDebugOutput line) \<and>
   outbox (cursor_onStderr chunk s) =
     outbox s @ [SendAgentMessage
                   (ErrorMessage (if chunk = [] then ''Unknown error'' else chunk)) (uuidCount s)]"
proof (intro conjI impI)
  assume a: "msgType msg = ''error'' \<and> isGeminiDebugOutput (errorText msg)"
  then show "gemini_handler msg s = s" by (simp add: handler_error)
  from a show "outbox (gemini_handleMessage msg s) = outbox s"
    by (simp add: gemini_handleMessage_def handler_error)
next
  assume a: "msgType msg \<notin> set geminiKnownTypes \<and>
    firstStr msg [''message'', ''text'', ''content''] = Some line \<and> isGeminiDebugOutput line"
  then show "gemini_handler msg s = s" by (simp add: handler_unknown)
  from a show "outbox (gemini_handleMessage msg s) = outbox s"
    by (simp add: gemini_handleMessage_def handler_unknown)
next
  assume a: "isGeminiDebugOutput (trim chunk)"
  show "gemini_onStderr chunk s = s"
    using a by (simp add: gemini_onStderr_def Let_def handler_error errorEvent_reads)
next
  assume "re_logPrefix line \<or> re_jsonStart line \<or> re_justNumber line \<or> re_justCloser line"
  then show "isGeminiDebugOutput line"
    by (auto simp: isGeminiDebugOutput_def)
next
  show "outbox (cursor_onStderr chunk s) =
     outbox s @ [SendAgentMessage
                   (ErrorMessage (if chunk = [] then ''Unknown error'' else chunk)) (uuidCount s)]"
    by (rule cursor_onStderr_forwards)
qed

theorem gemini_noise_filtered_witness:
  "isGeminiDebugOutput ''[DEBUG] cache warm'' \<and>
   isGeminiDebugOutput ''{'' \<and> isGeminiDebugOutput ''42,'' \<and> isGeminiDebugOutput ''],'' \<and>
   gemini_handler (errorEvent ''[DEBUG] cache warm'') (newSession exampleHasher [CHR 0x0A]) =
     newSession exampleHasher [CHR 0x0A] \<and>
   gemini_handler (textEvent ''telemetry'' ''[INFO] flushing'' False)
     (newSession exampleHasher [CHR 0x0A]) = newSession exampleHasher [CHR 0x0A] \<and>
   gemini_onStderr '' 42, '' (newSession exampleHasher [CHR 0x0A]) =
     newSession exampleHasher [CHR 0x0A]"
proof -
  have r: "isGeminiDebugOutput ''[DEBUG] cache warm''" "isGeminiDebugOutput ''{''"
      "isGeminiDebugOutput ''42,''" "isGeminiDebugOutput ''],''"
      "isGeminiDebugOutput ''[INFO] flushing''" "isGeminiDebugOutput (trim '' 42, '')"
    by code_simp+
  have e: "msgType (errorEvent ''[DEBUG] cache warm'') = ''error''"
      "errorText (errorEvent ''[DEBUG] cache warm'') = ''[DEBUG] cache warm''"
    by code_simp+
  have u: "msgType (textEvent ''telemetry'' ''[INFO] flushing'' False) \<notin> set geminiKnownTypes"
      "firstStr (textEvent ''telemetry'' ''[INFO] flushing'' False)
         [''message'', ''text'', ''content''] = Some ''[INFO] flushing''"
    by code_simp+
  show ?thesis
    using gemini_noise_filtered[where msg = "errorEvent ''[DEBUG] cache warm''"
        and line = "''[INFO] flushing''" and s = "newSession exampleHasher [CHR 0x0A]"
        and chunk = "'' 42, ''"]
      gemini_noise_filtered[where msg = "textEvent ''telemetry'' ''[INFO] flushing'' False"
        and line = "''[INFO] flushing''" and s = "newSession exampleHasher [CHR 0x0A]"
        and chunk = "'' 42, ''"]
      r e u
    by simp
qed

text \<open>
  Claim C8 as stated fails: the Cursor integration has no filter. A chunk on the standard
  error of \<open>cursor-agent\<close> that is recognized noise is sent to the remote client as an
  error message, as it is. In the Gemini integration, the text of a \<open>message\<close> event
  is not filtered either.
\<close>

theorem cursor_forwards_noise_counterexample:
  "isGeminiDebugOutput ''[DEBUG] cache warm'' \<and>
   outbox (cursor_onStderr ''[DEBUG] cache warm'' (newSession exampleHasher [CHR 0x0A])) =
     [KeepAlive False, SendAgentMessage (ErrorMessage ''[DEBUG] cache warm'') 0] \<and>
   outbox (gemini_handler (textEvent ''message'' ''[DEBUG] cache warm'' False)
             (newSession exampleHasher [CHR 0x0A])) =
     [KeepAlive False, SendAgentMessage (Message ''[DEBUG] cache warm'') 0, KeepAlive False]"
  by code_simp

subsection \<open>Reachable states of the permission handler\<close>

text \<open>
  Whatever happens to a session, its permission handler satisfies the invariant: the
  handlers of backend events and of user messages do not touch it, and the loop, the
  abort and the permission RPCs change it only through \<open>reset\<close>, \<open>permissionRpc\<close> and
  \<open>handleToolCall\<close> (a Cursor session does not touch it at all). So the invariant that the theorems on the permission handler
  assume holds in every state a session reaches.
\<close>

lemma ph_sendAgentMessage [simp]:
  "permissionHandler (sendAgentMessage body s) = permissionHandler s"
  by (simp add: sendAgentMessage_def)

lemma ph_setThinking [simp]: "permissionHandler (setThinking v s) = permissionHandler s"
  by (simp add: setThinking_def emit_def)

lemma ph_emit [simp]: "permissionHandler (emit e s) = permissionHandler s"
  by (simp add: emit_def)

lemma ph_sendReady [simp]: "permissionHandler (sendReady s) = permissionHandler s"
  by (simp add: sendReady_def)

lemma ph_flush [simp]: "permissionHandler (flushAccumulatedMessage s) = permissionHandler s"
  by (simp add: flushAccumulatedMessage_def)

lemma ph_callIdOf [simp]: "permissionHandler (snd (callIdOf msg keys s)) = permissionHandler s"
  by (simp add: callIdOf_def)

lemma ph_gemini_handler [simp]: "permissionHandler (gemini_handler msg s) = permissionHandler s"
  by (simp add: gemini_handler_def Let_def case_prod_unfold if_distrib[of permissionHandler]
      option.case_distrib[of permissionHandler] split del: if_split cong: if_cong option.case_cong)
     (simp split: option.splits)

lemma ph_cursor_handler [simp]: "permissionHandler (cursor_handler msg s) = permissionHandler s"
  by (simp add: cursor_handler_def Let_def case_prod_unfold if_distrib[of permissionHandler]
      split del: if_split cong: if_cong) simp?

lemma ph_onUserMessage [simp]: "permissionHandler (onUserMessage um s) = permissionHandler s"
  by (simp add: onUserMessage_def Let_def split: option.splits)

lemma ph_finalCleanup [simp]: "permissionHandler (finalCleanup s) = permissionHandler s"
  by (simp add: finalCleanup_def Let_def)

lemma ph_catchBlock [simp]: "permissionHandler (catchBlock e s) = permissionHandler s"
  by (simp add: catchBlock_def)

lemma processBatch_cases:
  obtains (failed) e c where
      "processBatch b env batch s =
         finallyBlock b env (catchBlock e (s\<lparr>currentModeHash := Some (hash batch), client := c\<rparr>))"
    | (blocked) c where
      "processBatch b env batch s =
         s\<lparr>currentModeHash := Some (hash batch), client := c, wasCreated := True,
           isFirst := False, awaitingExit := True\<rparr>"
    | (started) c where
      "processBatch b env batch s =
         finallyBlock b env (s\<lparr>currentModeHash := Some (hash batch), client := c, wasCreated := True,
           isFirst := False\<rparr>)"
    | (continued) c where
      "processBatch b env batch s =
         finallyBlock b env (s\<lparr>currentModeHash := Some (hash batch), client := c\<rparr>)"
proof -
  obtain r c where bc: "backendCall b env batch s = (r, c)"
    by (cases "backendCall b env batch s")
  show thesis
  proof (cases r)
    case (Inl e)
    with bc have "backendCall b env batch s = (Inl e, c)" by simp
    then show thesis by (rule failed[OF processBatch_failure])
  next
    case (Inr response)
    show thesis
    proof (cases "wasCreated s")
      case True
      with bc Inr have "processBatch b env batch s =
         finallyBlock b env (s\<lparr>currentModeHash := Some (hash batch), client := c\<rparr>)"
        by (simp add: processBatch_def backendCall_def Let_def split del: if_split)
      then show thesis by (rule continued)
    next
      case False
      show thesis
      proof (cases "loopIsInteractive b env \<and> hasActiveSession c")
        case True
        with bc Inr \<open>\<not> wasCreated s\<close> have "processBatch b env batch s =
           s\<lparr>currentModeHash := Some (hash batch), client := c, wasCreated := True,
             isFirst := False, awaitingExit := True\<rparr>"
          by (simp add: processBatch_def backendCall_def Let_def split del: if_split)
        then show thesis by (rule blocked)
      next
        case False
        with bc Inr \<open>\<not> wasCreated s\<close> have "processBatch b env batch s =
           finallyBlock b env (s\<lparr>currentModeHash := Some (hash batch), client := c, wasCreated := True,
             isFirst := False\<rparr>)"
          by (simp add: processBatch_def backendCall_def Let_def split del: if_split, auto)
        then show thesis by (rule started)
      qed
    qed
  qed
qed

lemma ph_processBatch:
  "permissionHandler (processBatch b env batch s) = permissionHandler s \<or>
   permissionHandler (processBatch b env batch s) = reset (permissionHandler s)"
  by (cases rule: processBatch_cases[of b env batch s]; cases b)
     (simp_all add: finallyBlock_fields)

lemma ph_loopStep:
  "permissionHandler (snd (loopStep b env s)) = permissionHandler s \<or>
   permissionHandler (snd (loopStep b env s)) = reset (permissionHandler s)"
proof (cases "exited s \<or> awaitingExit s \<or> shouldExit s")
  case True
  then show ?thesis
    by (cases b) (auto simp: loopStep_def finallyBlock_fields)
next
  case False
  then have f: "\<not> exited s" "\<not> awaitingExit s" "\<not> shouldExit s" by simp_all
  show ?thesis
  proof (cases "collectBatch (messageQueue s)")
    case None
    with f show ?thesis
      by (simp add: loopStep_def waitForMessagesAndGetAsString_def Let_def)
  next
    case (Some bq)
    obtain batch q where "bq = (batch, q)" by (cases bq)
    with Some have cb: "collectBatch (messageQueue s) = Some (batch, q)" by simp
    have pb: "permissionHandler (processBatch b env batch (s\<lparr>waitToken := None, messageQueue := q\<rparr>)) = permissionHandler s \<or>
       permissionHandler (processBatch b env batch (s\<lparr>waitToken := None, messageQueue := q\<rparr>)) = reset (permissionHandler s)"
      using ph_processBatch[of b env batch "s\<lparr>waitToken := None, messageQueue := q\<rparr>"] by simp
    show ?thesis
    proof (cases "modeChanged batch s")
      case True
      then show ?thesis
        by (cases b) (simp_all add: loopStep_got[OF f cb] restartBranch_fields)
    next
      case False
      then show ?thesis
        using pb by (simp add: loopStep_got[OF f cb])
    qed
  qed
qed

lemma broker_inv_applyAction:
  "broker_inv (permissionHandler s) \<Longrightarrow> broker_inv (permissionHandler (applyAction b a s))"
proof (cases a)
  case (LoopStep env)
  assume inv: "broker_inv (permissionHandler s)"
  from ph_loopStep[of b env s] inv LoopStep show ?thesis
    by (auto simp: broker_inv_reset)
next
  case (BackendMessage r msg)
  assume "broker_inv (permissionHandler s)"
  with BackendMessage show ?thesis
    by (cases b) (simp_all add: gemini_handleMessage_def cursor_handleMessage_def)
next
  case (BackendStderr chunk)
  assume "broker_inv (permissionHandler s)"
  with BackendStderr show ?thesis
    by (cases b) (simp_all add: gemini_onStderr_def cursor_onStderr_def Let_def)
next
  case ProcessExit
  assume "broker_inv (permissionHandler s)"
  with ProcessExit show ?thesis by (cases b) simp_all
next
  case (AbortRpc now)
  assume "broker_inv (permissionHandler s)"
  with AbortRpc show ?thesis
    by (cases b) (simp_all add: handleAbort_def resetPermissionHandler_fields broker_inv_reset)
next
  case (PermissionRpc now requestId isApproved responseDecision why)
  assume "broker_inv (permissionHandler s)"
  with PermissionRpc show ?thesis by (cases b) (simp_all add: broker_inv_permissionRpc)
next
  case (ToolPermissionRequest now toolCallId name inp)
  assume "broker_inv (permissionHandler s)"
  with ToolPermissionRequest show ?thesis by (cases b) (simp_all add: broker_inv_handleToolCall)
next
  case (UserSends um)
  assume "broker_inv (permissionHandler s)"
  with UserSends show ?thesis by simp
qed

lemma broker_inv_run:
  "broker_inv (permissionHandler s) \<Longrightarrow> broker_inv (permissionHandler (run b actions s))"
  unfolding run_def
  by (induction actions arbitrary: s) (simp_all add: broker_inv_applyAction)

theorem broker_inv_reachable:
  "broker_inv (permissionHandler (run b actions (newSession hasher sep)))"
  by (rule broker_inv_run) (simp add: newSession_def broker_inv_new)

subsection \<open>From a restart to the next start\<close>

lemma kept_sendAgentMessage [simp]:
  "client (sendAgentMessage body s) = client s"
  "wasCreated (sendAgentMessage body s) = wasCreated s"
  "cursorPermissionHandler (sendAgentMessage body s) = cursorPermissionHandler s"
  by (simp_all add: sendAgentMessage_def)

lemma kept_emit [simp]:
  "client (emit e s) = client s"
  "wasCreated (emit e s) = wasCreated s"
  "cursorPermissionHandler (emit e s) = cursorPermissionHandler s"
  by (simp_all add: emit_def)

lemma kept_setThinking [simp]:
  "client (setThinking v s) = client s"
  "wasCreated (setThinking v s) = wasCreated s"
  "cursorPermissionHandler (setThinking v s) = cursorPermissionHandler s"
  by (simp_all add: setThinking_def)

lemma kept_sendReady [simp]:
  "client (sendReady s) = client s"
  "wasCreated (sendReady s) = wasCreated s"
  "cursorPermissionHandler (sendReady s) = cursorPermissionHandler s"
  by (simp_all add: sendReady_def)

lemma kept_flush [simp]:
  "client (flushAccumulatedMessage s) = client s"
  "wasCreated (flushAccumulatedMessage s) = wasCreated s"
  "cursorPermissionHandler (flushAccumulatedMessage s) = cursorPermissionHandler s"
  by (simp_all add: flushAccumulatedMessage_def)

lemma kept_callIdOf [simp]:
  "client (snd (callIdOf msg keys s)) = client s"
  "wasCreated (snd (callIdOf msg keys s)) = wasCreated s"
  "cursorPermissionHandler (snd (callIdOf msg keys s)) = cursorPermissionHandler s"
  by (simp_all add: callIdOf_def)

lemma client_gemini_handler [simp]: "client (gemini_handler msg s) = client s"
  by (simp add: gemini_handler_def Let_def case_prod_unfold if_distrib[of client]
      option.case_distrib[of client] split del: if_split cong: if_cong option.case_cong)
     (simp split: option.splits)

lemma wasCreated_gemini_handler [simp]: "wasCreated (gemini_handler msg s) = wasCreated s"
  by (simp add: gemini_handler_def Let_def case_prod_unfold if_distrib[of wasCreated]
      option.case_distrib[of wasCreated] split del: if_split cong: if_cong option.case_cong)
     (simp split: option.splits)

lemma cph_gemini_handler [simp]:
  "cursorPermissionHandler (gemini_handler msg s) = cursorPermissionHandler s"
  by (simp add: gemini_handler_def Let_def case_prod_unfold
      if_distrib[of cursorPermissionHandler] option.case_distrib[of cursorPermissionHandler]
      split del: if_split cong: if_cong option.case_cong)
     (simp split: option.splits)

lemma client_cursor_handler [simp]: "client (cursor_handler msg s) = client s"
  by (simp add: cursor_handler_def Let_def case_prod_unfold if_distrib[of client]
      split del: if_split cong: if_cong) simp?

lemma wasCreated_cursor_handler [simp]: "wasCreated (cursor_handler msg s) = wasCreated s"
  by (simp add: cursor_handler_def Let_def case_prod_unfold if_distrib[of wasCreated]
      split del: if_split cong: if_cong) simp?

lemma cph_cursor_handler [simp]:
  "cursorPermissionHandler (cursor_handler msg s) = cursorPermissionHandler s"
  by (simp add: cursor_handler_def Let_def case_prod_unfold
      if_distrib[of cursorPermissionHandler] split del: if_split cong: if_cong) simp?

lemma pendingIds_handlers [simp]:
  "pendingIds b (gemini_handler msg s) = pendingIds b s"
  "pendingIds b (cursor_handler msg s) = pendingIds b s"
  by (simp_all add: pendingIds_def split: backend.splits)

lemma restarted_gemini_handler [simp]: "restarted b (gemini_handler msg s) = restarted b s"
  by (simp add: restarted_def)

lemma restarted_cursor_handler [simp]: "restarted b (cursor_handler msg s) = restarted b s"
  by (simp add: restarted_def)















end
